theory Spec2Isabelle
  imports Complex_Main
begin

section \<open>Values of the input payload\<close>

text \<open>
  The viewer receives its scene as the result of \<^verbatim>\<open>JSON.parse\<close> and reads it without
  any validation, so the code is modelled on untyped values. Numbers are modelled as
  reals, here and in the camera arithmetic: rounding of the double-precision numbers of
  the source is not part of the model. A string is the list of its code units, an object
  the association list of its own properties (\<open>map_of\<close> reads a property).
  \<open>JUndefined\<close> is the value of a missing property.
\<close>

datatype jsval =
    JUndefined
  | JNull
  | JBool bool
  | JNum real
  | JStr string
  | JArr "jsval list"
  | JObj "(string \<times> jsval) list"

text \<open>The exceptions the code can meet: \<^verbatim>\<open>JSON.parse\<close> throws the first, a failed
  property read, method call or conversion throws the second.\<close>

datatype exn = SyntaxError | TypeError

definition andThen :: "exn + 'a \<Rightarrow> ('a \<Rightarrow> exn + 'b) \<Rightarrow> exn + 'b" where
  "andThen r f = (case r of Inl e \<Rightarrow> Inl e | Inr v \<Rightarrow> f v)"

text \<open>
  \<^verbatim>\<open>v.k\<close> for the property names the viewer reads (\<^verbatim>\<open>objects\<close>, \<^verbatim>\<open>name\<close>,
  \<^verbatim>\<open>faces\<close>, \<^verbatim>\<open>vertices\<close>, \<^verbatim>\<open>normal\<close>, \<^verbatim>\<open>x\<close>, \<^verbatim>\<open>y\<close>, \<^verbatim>\<open>z\<close>,
  \<^verbatim>\<open>length\<close>): reading a property of \<^verbatim>\<open>null\<close> or \<^verbatim>\<open>undefined\<close> throws, an array
  and a string have a \<^verbatim>\<open>length\<close>, an object has its own properties, and everything
  else is \<^verbatim>\<open>undefined\<close>.
\<close>

fun getProp :: "jsval \<Rightarrow> string \<Rightarrow> exn + jsval" where
  "getProp JUndefined k = Inl TypeError"
| "getProp JNull k = Inl TypeError"
| "getProp (JObj ps) k = Inr (case map_of ps k of Some v \<Rightarrow> v | None \<Rightarrow> JUndefined)"
| "getProp (JArr xs) k = Inr (if k = ''length'' then JNum (real (length xs)) else JUndefined)"
| "getProp (JStr s) k = Inr (if k = ''length'' then JNum (real (length s)) else JUndefined)"
| "getProp (JBool b) k = Inr JUndefined"
| "getProp (JNum r) k = Inr JUndefined"

definition getProp2 :: "jsval \<Rightarrow> string \<Rightarrow> string \<Rightarrow> exn + jsval" where
  "getProp2 v k1 k2 = andThen (getProp v k1) (\<lambda>w. getProp w k2)"

text \<open>
  \<^verbatim>\<open>v.forEach(f)\<close>: only an array has a callable \<^verbatim>\<open>forEach\<close>; on \<^verbatim>\<open>null\<close> and
  \<^verbatim>\<open>undefined\<close> the property read throws, on every other value the call of a
  non-function throws. The result is the list of elements the callback visits.
\<close>

fun forEachTarget :: "jsval \<Rightarrow> exn + jsval list" where
  "forEachTarget (JArr xs) = Inr xs"
| "forEachTarget v = Inl TypeError"

text \<open>The callback runs on each element in order; an exception ends the loop.\<close>

fun forEach :: "'a list \<Rightarrow> ('a \<Rightarrow> 's \<Rightarrow> exn + 's) \<Rightarrow> 's \<Rightarrow> exn + 's" where
  "forEach [] f s = Inr s"
| "forEach (v # vs) f s = (case f v s of Inl e \<Rightarrow> Inl e | Inr s' \<Rightarrow> forEach vs f s')"

text \<open>Truthiness, as \<^verbatim>\<open>||\<close> and \<^verbatim>\<open>?:\<close> test it.\<close>

fun truthy :: "jsval \<Rightarrow> bool" where
  "truthy JUndefined = False"
| "truthy JNull = False"
| "truthy (JBool b) = b"
| "truthy (JNum r) = (r \<noteq> 0)"
| "truthy (JStr s) = (s \<noteq> [])"
| "truthy (JArr xs) = True"
| "truthy (JObj ps) = True"

text \<open>
  Conversion of a value to a number (the elements of a \<^verbatim>\<open>Float32Array\<close>) or to a string
  (the argument of \<^verbatim>\<open>parseInt\<close>) throws exactly when the value is an object whose own
  property \<^verbatim>\<open>toString\<close> hides the inherited method (a parsed value is never callable),
  or an array that has such an element, since an array is joined from its elements'
  strings.
\<close>

fun conv_throws :: "jsval \<Rightarrow> bool" where
  "conv_throws (JObj ps) = (''toString'' \<in> fst ` set ps)"
| "conv_throws (JArr xs) = (\<exists>v \<in> set xs. conv_throws v)"
| "conv_throws v = False"

section \<open>Geometry builder\<close>

text \<open>The local variables of \<^verbatim>\<open>createMeshFromObject\<close>: three growing arrays and the
  running vertex offset.\<close>

record buffers =
  vertices :: "jsval list"
  normals :: "jsval list"
  indices :: "nat list"
  vertexIndex :: nat

definition emptyBuffers :: buffers where
  "emptyBuffers = \<lparr>vertices = [], normals = [], indices = [], vertexIndex = 0\<rparr>"

text \<open>The callback of the inner \<^verbatim>\<open>face.vertices.forEach\<close>: three coordinates of the
  vertex, then the three coordinates of the face's normal.\<close>

definition pushVertex :: "jsval \<Rightarrow> jsval \<Rightarrow> buffers \<Rightarrow> exn + buffers" where
  "pushVertex face vertex b =
     andThen (getProp vertex ''x'') (\<lambda>px.
     andThen (getProp vertex ''y'') (\<lambda>py.
     andThen (getProp vertex ''z'') (\<lambda>pz.
     andThen (getProp2 face ''normal'' ''x'') (\<lambda>nx.
     andThen (getProp2 face ''normal'' ''y'') (\<lambda>ny.
     andThen (getProp2 face ''normal'' ''z'') (\<lambda>nz.
       Inr (b\<lparr>vertices := vertices b @ [px, py, pz],
              normals := normals b @ [nx, ny, nz]\<rparr>)))))))"

text \<open>The callback of \<^verbatim>\<open>object.faces.forEach\<close>. The comparison \<^verbatim>\<open>===\<close> does not
  convert, so only the number 4 (or 3) selects a branch.\<close>

definition addFace :: "jsval \<Rightarrow> buffers \<Rightarrow> exn + buffers" where
  "addFace face b =
     andThen (getProp2 face ''vertices'' ''length'') (\<lambda>len.
       if len = JNum 4 then
         andThen (andThen (getProp face ''vertices'') forEachTarget) (\<lambda>vs.
         andThen (forEach vs (pushVertex face) b) (\<lambda>b'.
           Inr (b'\<lparr>indices := indices b' @
                     [vertexIndex b', vertexIndex b' + 1, vertexIndex b' + 2,
                      vertexIndex b', vertexIndex b' + 2, vertexIndex b' + 3],
                   vertexIndex := vertexIndex b' + 4\<rparr>)))
       else if len = JNum 3 then
         andThen (andThen (getProp face ''vertices'') forEachTarget) (\<lambda>vs.
         andThen (forEach vs (pushVertex face) b) (\<lambda>b'.
           Inr (b'\<lparr>indices := indices b' @
                     [vertexIndex b', vertexIndex b' + 1, vertexIndex b' + 2],
                   vertexIndex := vertexIndex b' + 3\<rparr>)))
       else Inr b)"

text \<open>The first half of \<^verbatim>\<open>createMeshFromObject\<close>: the loop over the faces, from empty
  arrays.\<close>

definition buildBuffers :: "jsval \<Rightarrow> exn + buffers" where
  "buildBuffers object =
     andThen (andThen (getProp object ''faces'') forEachTarget) (\<lambda>fs.
       forEach fs addFace emptyBuffers)"

text \<open>
  The group that \<^verbatim>\<open>createMeshFromObject\<close> returns, as the arrays handed to the rendering
  library: the \<^verbatim>\<open>position\<close> and \<^verbatim>\<open>normal\<close> attributes and the index of the geometry
  that the mesh and its wireframe share. Materials, colour and the derived edge geometry
  are left out.
\<close>

record group =
  position :: "jsval list"
  normal :: "jsval list"
  index :: "nat list"

text \<open>
  The second half: the typed arrays convert every element to a number, and
  \<^verbatim>\<open>parseInt(object.name, 36)\<close> converts a truthy name to a string; either conversion
  can throw. A falsy name takes the \<^verbatim>\<open>Math.random\<close> branch, which converts nothing.
\<close>

definition createMeshFromObject :: "jsval \<Rightarrow> exn + group" where
  "createMeshFromObject object =
     andThen (buildBuffers object) (\<lambda>b.
       if (\<exists>v \<in> set (vertices b). conv_throws v) \<or> (\<exists>v \<in> set (normals b). conv_throws v)
       then Inl TypeError
       else
         andThen (getProp object ''name'') (\<lambda>n.
           if truthy n \<and> conv_throws n then Inl TypeError
           else Inr \<lparr>position = vertices b, normal = normals b, index = indices b\<rparr>))"

definition vertexCount :: "group \<Rightarrow> nat" where
  "vertexCount g = length (position g) div 3"

definition triangleCount :: "group \<Rightarrow> nat" where
  "triangleCount g = length (index g) div 3"

section \<open>The declared input types\<close>

text \<open>The interfaces \<^verbatim>\<open>Vertex\<close>, \<^verbatim>\<open>Normal\<close>, \<^verbatim>\<open>Face\<close> and \<^verbatim>\<open>Object3D\<close>, and the
  value each of their inhabitants is at run time.\<close>

datatype Vertex = Vertex (vertex_x: real) (vertex_y: real) (vertex_z: real)

datatype Normal = Normal (normal_x: real) (normal_y: real) (normal_z: real)

record Face =
  face_vertices :: "Vertex list"
  face_normal :: Normal

record Object3D =
  object_faces :: "Face list"
  object_name :: "string option"

definition Vertex_js :: "Vertex \<Rightarrow> jsval" where
  "Vertex_js v = JObj [(''x'', JNum (vertex_x v)), (''y'', JNum (vertex_y v)),
                       (''z'', JNum (vertex_z v))]"

definition Normal_js :: "Normal \<Rightarrow> jsval" where
  "Normal_js n = JObj [(''x'', JNum (normal_x n)), (''y'', JNum (normal_y n)),
                       (''z'', JNum (normal_z n))]"

definition Face_js :: "Face \<Rightarrow> jsval" where
  "Face_js f = JObj [(''vertices'', JArr (map Vertex_js (face_vertices f))),
                     (''normal'', Normal_js (face_normal f))]"

definition Object3D_js :: "Object3D \<Rightarrow> jsval" where
  "Object3D_js ob =
     JObj ((''faces'', JArr (map Face_js (object_faces ob))) #
           (case object_name ob of None \<Rightarrow> [] | Some n \<Rightarrow> [(''name'', JStr n)]))"

definition SceneData_js :: "Object3D list \<Rightarrow> jsval" where
  "SceneData_js obs = JObj [(''objects'', JArr (map Object3D_js obs))]"






definition coords :: "Vertex \<Rightarrow> jsval list" where
  "coords v = [JNum (vertex_x v), JNum (vertex_y v), JNum (vertex_z v)]"

definition ncoords :: "Normal \<Rightarrow> jsval list" where
  "ncoords n = [JNum (normal_x n), JNum (normal_y n), JNum (normal_z n)]"

section \<open>Scene mutator\<close>

text \<open>The decimal digits of a number, for the template \<^verbatim>\<open>`object${index}`\<close>.\<close>

fun digitsOf :: "nat \<Rightarrow> string" where
  "digitsOf n =
     (if n < 10 then [char_of (48 + n)]
      else digitsOf (n div 10) @ [char_of (48 + n mod 10)])"

declare digitsOf.simps [simp del]

text \<open>The own enumerable properties that the spread \<^verbatim>\<open>{...obj}\<close> copies: those of an
  object, the elements of an array and the characters of a string under their positions,
  nothing for any other value.\<close>

fun ownProps :: "jsval \<Rightarrow> (string \<times> jsval) list" where
  "ownProps (JObj ps) = ps"
| "ownProps (JArr xs) = zip (map digitsOf [0..<length xs]) xs"
| "ownProps (JStr s) = zip (map digitsOf [0..<length s]) (map (\<lambda>c. JStr [c]) s)"
| "ownProps v = []"

text \<open>\<^verbatim>\<open>{...obj, name: obj.name || `object${index}`}\<close>: the new \<^verbatim>\<open>name\<close> comes first in
  the list, so it is the one that is read.\<close>

definition withName :: "jsval \<Rightarrow> nat \<Rightarrow> exn + jsval" where
  "withName obj i =
     andThen (getProp obj ''name'') (\<lambda>n.
       Inr (JObj ((''name'', if truthy n then n else JStr (''object'' @ digitsOf i)) #
                  ownProps obj)))"

text \<open>The children of the scene. The lights and the grid are built with constant
  arguments, so each is one value.\<close>

datatype child = AmbientLight | DirectionalLight | GridHelper | Group group

text \<open>\<^verbatim>\<open>while (children.length > 0) remove(children[0])\<close>.\<close>

fun clearChildren :: "child list \<Rightarrow> child list" where
  "clearChildren [] = []"
| "clearChildren (c # cs) = clearChildren cs"

text \<open>
  \<^verbatim>\<open>data.objects.forEach((obj, index) => ...)\<close> on the live scene: a group that was added
  stays added when a later object throws, so the children are returned together with the
  exception, if any.
\<close>

fun addMeshes :: "jsval list \<Rightarrow> nat \<Rightarrow> child list \<Rightarrow> exn option \<times> child list" where
  "addMeshes [] i children = (None, children)"
| "addMeshes (obj # objs) i children =
     (case andThen (withName obj i) createMeshFromObject of
        Inl e \<Rightarrow> (Some e, children)
      | Inr mesh \<Rightarrow> addMeshes objs (Suc i) (children @ [Group mesh]))"

text \<open>
  The body of the \<^verbatim>\<open>try\<close> block. Its first argument is the outcome of
  \<^verbatim>\<open>JSON.parse(jsonInput)\<close>: \<open>None\<close> when the text is not JSON and the call throws, the
  parsed value otherwise. The result is the exception that reaches \<^verbatim>\<open>catch\<close>, if any,
  and the children of the scene at that moment.
\<close>

definition loadScene :: "jsval option \<Rightarrow> child list \<Rightarrow> exn option \<times> child list" where
  "loadScene parsed children =
     (case parsed of
        None \<Rightarrow> (Some SyntaxError, children)
      | Some data \<Rightarrow>
          (let lit = clearChildren children @ [AmbientLight, DirectionalLight, GridHelper]
           in case andThen (getProp data ''objects'') forEachTarget of
                Inl e \<Rightarrow> (Some e, lit)
              | Inr objs \<Rightarrow> addMeshes objs 0 lit))"

text \<open>The two expressions of the load loop that can throw: \<^verbatim>\<open>data.objects.forEach\<close>,
  which gives the elements to visit, and the call of line 308 that builds the group of
  the element at position \<open>i\<close>.\<close>

abbreviation objectsOf :: "jsval \<Rightarrow> exn + jsval list" where
  "objectsOf data \<equiv> andThen (getProp data ''objects'') forEachTarget"

abbreviation meshOf :: "jsval \<Rightarrow> nat \<Rightarrow> exn + group" where
  "meshOf obj i \<equiv> andThen (withName obj i) createMeshFromObject"

section \<open>Orbit camera\<close>

text \<open>The position of the camera; its orientation is recomputed by \<^verbatim>\<open>lookAt(0, 0, 0)\<close>
  after every update and is not part of the state.\<close>

datatype vec3 = Vec3 (vx: real) (vy: real) (vz: real)

record MouseControls =
  isMouseDown :: bool
  startX :: real
  startY :: real
  lastX :: real
  lastY :: real

record MouseEvent =
  clientX :: real
  clientY :: real

record WheelEvent =
  deltaY :: real

text \<open>The state of the component: the three references and the error slot.\<close>

record viewer =
  sceneRef :: "child list option"
  cameraRef :: "vec3 option"
  mouseControls :: MouseControls
  error :: string

text \<open>The state once both effects have run: a scene that holds the grid, the camera
  at \<open>z = 5\<close>, no drag in progress, no error.\<close>

definition mounted :: viewer where
  "mounted = \<lparr>sceneRef = Some [GridHelper], cameraRef = Some (Vec3 0 0 5),
     mouseControls = \<lparr>isMouseDown = False, startX = 0, startY = 0, lastX = 0, lastY = 0\<rparr>,
     error = []\<rparr>"

definition handleJsonSubmit :: "jsval option \<Rightarrow> viewer \<Rightarrow> viewer" where
  "handleJsonSubmit parsed st =
     (case sceneRef st of
        None \<Rightarrow> st
      | Some children \<Rightarrow>
          (case loadScene parsed children of
             (None, children') \<Rightarrow> st\<lparr>sceneRef := Some children', error := []\<rparr>
           | (Some e, children') \<Rightarrow>
               st\<lparr>sceneRef := Some children',
                  error := ''Invalid JSON format. Please check your input.''\<rparr>))"

text \<open>\<^verbatim>\<open>Math.atan2(y, x)\<close> on real numbers.\<close>

definition atan2 :: "real \<Rightarrow> real \<Rightarrow> real" where
  "atan2 y x =
     (if 0 < x then arctan (y / x)
      else if x < 0 then (if 0 \<le> y then arctan (y / x) + pi else arctan (y / x) - pi)
      else if 0 < y then pi / 2
      else if y < 0 then - (pi / 2)
      else 0)"

definition handleMouseDown :: "MouseEvent \<Rightarrow> viewer \<Rightarrow> viewer" where
  "handleMouseDown e st =
     st\<lparr>mouseControls := \<lparr>isMouseDown = True, startX = clientX e, startY = clientY e,
                            lastX = clientX e, lastY = clientY e\<rparr>\<rparr>"

text \<open>The assignment to \<^verbatim>\<open>position.z\<close> reads \<^verbatim>\<open>position.x\<close> after it has been
  assigned, so \<open>z1\<close> is computed from \<open>x1\<close>.\<close>

definition handleMouseMove :: "MouseEvent \<Rightarrow> viewer \<Rightarrow> viewer" where
  "handleMouseMove e st =
     (case cameraRef st of
        None \<Rightarrow> st
      | Some p \<Rightarrow>
          if \<not> isMouseDown (mouseControls st) then st
          else
            (let deltaX = clientX e - lastX (mouseControls st);
                 deltaY = clientY e - lastY (mouseControls st);
                 rotationSpeed = 0.01;
                 x1 = vx p * cos (deltaX * rotationSpeed) - vz p * sin (deltaX * rotationSpeed);
                 z1 = x1 * sin (deltaX * rotationSpeed) + vz p * cos (deltaX * rotationSpeed);
                 currentRadius = sqrt (z1 * z1 + vy p * vy p);
                 currentAngle = atan2 (vy p) z1;
                 newAngle = currentAngle + deltaY * rotationSpeed;
                 y2 = currentRadius * sin newAngle;
                 z2 = currentRadius * cos newAngle
             in st\<lparr>cameraRef := Some (Vec3 x1 y2 z2),
                   mouseControls := (mouseControls st)\<lparr>lastX := clientX e, lastY := clientY e\<rparr>\<rparr>))"

definition handleMouseUp :: "viewer \<Rightarrow> viewer" where
  "handleMouseUp st = st\<lparr>mouseControls := (mouseControls st)\<lparr>isMouseDown := False\<rparr>\<rparr>"

text \<open>A drag gesture: the button goes down at \<open>e0\<close>, then the cursor moves through
  \<open>moves\<close> with the button held.\<close>

definition dragGesture :: "MouseEvent \<Rightarrow> MouseEvent list \<Rightarrow> viewer \<Rightarrow> viewer" where
  "dragGesture e0 moves st = foldl (\<lambda>s e. handleMouseMove e s) (handleMouseDown e0 st) moves"

text \<open>
  The update of one move as the spec words it (4.4), two independent incremental
  rotations: it differs from \<open>handleMouseMove\<close> only in computing \<open>z1\<close> from the old
  \<open>x\<close>. It is not the code; it separates what the overwritten \<open>x\<close> causes from what
  the composition of the two rotations causes.
\<close>

definition specMouseMove :: "MouseEvent \<Rightarrow> viewer \<Rightarrow> viewer" where
  "specMouseMove e st =
     (case cameraRef st of
        None \<Rightarrow> st
      | Some p \<Rightarrow>
          if \<not> isMouseDown (mouseControls st) then st
          else
            (let deltaX = clientX e - lastX (mouseControls st);
                 deltaY = clientY e - lastY (mouseControls st);
                 rotationSpeed = 0.01;
                 x1 = vx p * cos (deltaX * rotationSpeed) - vz p * sin (deltaX * rotationSpeed);
                 z1 = vx p * sin (deltaX * rotationSpeed) + vz p * cos (deltaX * rotationSpeed);
                 currentRadius = sqrt (z1 * z1 + vy p * vy p);
                 currentAngle = atan2 (vy p) z1;
                 newAngle = currentAngle + deltaY * rotationSpeed;
                 y2 = currentRadius * sin newAngle;
                 z2 = currentRadius * cos newAngle
             in st\<lparr>cameraRef := Some (Vec3 x1 y2 z2),
                   mouseControls := (mouseControls st)\<lparr>lastX := clientX e, lastY := clientY e\<rparr>\<rparr>))"

text \<open>The rotation of the plane of \<open>y\<close> and \<open>z\<close> by the angle \<open>d\<close>, and the distance
  of two positions in that plane.\<close>

definition tilt :: "real \<Rightarrow> vec3 \<Rightarrow> vec3" where
  "tilt d p = Vec3 (vx p) (vy p * cos d + vz p * sin d) (vz p * cos d - vy p * sin d)"

definition yzDistance :: "vec3 \<Rightarrow> vec3 \<Rightarrow> real" where
  "yzDistance p q = sqrt ((vy p - vy q)\<^sup>2 + (vz p - vz q)\<^sup>2)"

text \<open>
  Floating tolerance. The code computes each move in double precision, so the position it
  reaches is not the exact result of the update but a position near it. \<open>qs\<close> lists the
  positions a computation reaches after each move when every move lands within \<open>eps\<close>
  of the exact update of the position before it.
\<close>

fun withinTolerance :: "real \<Rightarrow> viewer \<Rightarrow> MouseEvent list \<Rightarrow> vec3 list \<Rightarrow> bool" where
  "withinTolerance eps st [] [] = True"
| "withinTolerance eps st (e # es) (q # qs) =
     (case cameraRef (handleMouseMove e st) of
        None \<Rightarrow> False
      | Some p' \<Rightarrow>
          \<bar>vx q - vx p'\<bar> \<le> eps \<and> yzDistance q p' \<le> eps \<and>
          withinTolerance eps ((handleMouseMove e st)\<lparr>cameraRef := Some q\<rparr>) es qs)"
| "withinTolerance eps st es qs = False"

text \<open>The vector operations of the rendering library that the zoom uses:
  \<^verbatim>\<open>length\<close>, \<^verbatim>\<open>multiplyScalar\<close>, \<^verbatim>\<open>divideScalar(s) = multiplyScalar(1 / s)\<close> and
  \<^verbatim>\<open>normalize() = divideScalar(length() || 1)\<close>.\<close>

definition vlength :: "vec3 \<Rightarrow> real" where
  "vlength p = sqrt (vx p * vx p + vy p * vy p + vz p * vz p)"






section \<open>Properties of the geometry builder\<close>

lemma pushVertex_typed:
  "pushVertex (Face_js f) (Vertex_js v) b =
     Inr (b\<lparr>vertices := vertices b @ coords v,
            normals := normals b @ ncoords (face_normal f)\<rparr>)"
  by (simp add: pushVertex_def getProp2_def andThen_def Face_js_def Vertex_js_def
      Normal_js_def coords_def ncoords_def)

lemma forEach_pushVertex_typed:
  "forEach (map Vertex_js vs) (pushVertex (Face_js f)) b =
     Inr (b\<lparr>vertices := vertices b @ concat (map coords vs),
            normals := normals b @ concat (map (\<lambda>v. ncoords (face_normal f)) vs)\<rparr>)"
proof (induction vs arbitrary: b)
  case Nil
  show ?case by simp
next
  case (Cons v vs)
  show ?case by (simp add: pushVertex_typed Cons.IH)
qed

lemma face_length_typed:
  "getProp2 (Face_js f) ''vertices'' ''length'' = Inr (JNum (real (length (face_vertices f))))"
  by (simp add: getProp2_def andThen_def Face_js_def)

lemma face_target_typed:
  "andThen (getProp (Face_js f) ''vertices'') forEachTarget
     = Inr (map Vertex_js (face_vertices f))"
  by (simp add: andThen_def Face_js_def)

lemma addFace_typed:
  "addFace (Face_js f) b =
     (if length (face_vertices f) = 4 then
        Inr \<lparr>vertices = vertices b @ concat (map coords (face_vertices f)),
             normals = normals b @ concat (map (\<lambda>v. ncoords (face_normal f)) (face_vertices f)),
             indices = indices b @
               [vertexIndex b, vertexIndex b + 1, vertexIndex b + 2,
                vertexIndex b, vertexIndex b + 2, vertexIndex b + 3],
             vertexIndex = vertexIndex b + 4\<rparr>
      else if length (face_vertices f) = 3 then
        Inr \<lparr>vertices = vertices b @ concat (map coords (face_vertices f)),
             normals = normals b @ concat (map (\<lambda>v. ncoords (face_normal f)) (face_vertices f)),
             indices = indices b @ [vertexIndex b, vertexIndex b + 1, vertexIndex b + 2],
             vertexIndex = vertexIndex b + 3\<rparr>
      else Inr b)"
  unfolding addFace_def face_length_typed face_target_typed
  by (simp add: andThen_def forEach_pushVertex_typed)

text \<open>
  C2. A face with exactly 4 vertices appends its 4 vertices (12 coordinates), 4 copies of
  its normal, and the two triangles (base, base+1, base+2) and (base, base+2, base+3),
  and advances the offset by 4; a face with exactly 3 vertices appends its 3 vertices,
  3 copies of its normal and the one triangle (base, base+1, base+2), and advances the
  offset by 3; a face with any other number of vertices leaves the buffers as they are.
  In every case the builder returns normally.
\<close>

theorem addFace_contribution:
  "(length (face_vertices f) = 4 \<longrightarrow>
      addFace (Face_js f) b =
        Inr \<lparr>vertices = vertices b @ concat (map coords (face_vertices f)),
             normals = normals b @ concat (replicate 4 (ncoords (face_normal f))),
             indices = indices b @
               [vertexIndex b, vertexIndex b + 1, vertexIndex b + 2,
                vertexIndex b, vertexIndex b + 2, vertexIndex b + 3],
             vertexIndex = vertexIndex b + 4\<rparr>)
   \<and> (length (face_vertices f) = 3 \<longrightarrow>
      addFace (Face_js f) b =
        Inr \<lparr>vertices = vertices b @ concat (map coords (face_vertices f)),
             normals = normals b @ concat (replicate 3 (ncoords (face_normal f))),
             indices = indices b @ [vertexIndex b, vertexIndex b + 1, vertexIndex b + 2],
             vertexIndex = vertexIndex b + 3\<rparr>)
   \<and> (length (face_vertices f) \<noteq> 4 \<and> length (face_vertices f) \<noteq> 3 \<longrightarrow>
      addFace (Face_js f) b = Inr b)"
proof -
  have rep: "map (\<lambda>v. ncoords (face_normal f)) (face_vertices f)
               = replicate (length (face_vertices f)) (ncoords (face_normal f))"
    by (simp add: map_replicate_const)
  show ?thesis
    by (simp add: addFace_typed rep)
qed

text \<open>The contribution of a unit square, of a triangle and of a segment, each added to
  buffers that already hold one vertex.\<close>

theorem addFace_contribution_witness:
  "addFace (Face_js \<lparr>face_vertices = [Vertex 0 0 0, Vertex 1 0 0, Vertex 1 1 0, Vertex 0 1 0],
                     face_normal = Normal 0 0 1\<rparr>)
     \<lparr>vertices = [JNum 7, JNum 8, JNum 9], normals = [JNum 1, JNum 0, JNum 0],
      indices = [], vertexIndex = 1\<rparr>
   = Inr \<lparr>vertices = [JNum 7, JNum 8, JNum 9,
                      JNum 0, JNum 0, JNum 0, JNum 1, JNum 0, JNum 0,
                      JNum 1, JNum 1, JNum 0, JNum 0, JNum 1, JNum 0],
          normals = [JNum 1, JNum 0, JNum 0,
                     JNum 0, JNum 0, JNum 1, JNum 0, JNum 0, JNum 1,
                     JNum 0, JNum 0, JNum 1, JNum 0, JNum 0, JNum 1],
          indices = [1, 2, 3, 1, 3, 4], vertexIndex = 5\<rparr>
   \<and> addFace (Face_js \<lparr>face_vertices = [Vertex 0 0 0, Vertex 1 0 0, Vertex 1 1 0],
                       face_normal = Normal 0 0 1\<rparr>)
     \<lparr>vertices = [JNum 7, JNum 8, JNum 9], normals = [JNum 1, JNum 0, JNum 0],
      indices = [], vertexIndex = 1\<rparr>
   = Inr \<lparr>vertices = [JNum 7, JNum 8, JNum 9,
                      JNum 0, JNum 0, JNum 0, JNum 1, JNum 0, JNum 0, JNum 1, JNum 1, JNum 0],
          normals = [JNum 1, JNum 0, JNum 0,
                     JNum 0, JNum 0, JNum 1, JNum 0, JNum 0, JNum 1, JNum 0, JNum 0, JNum 1],
          indices = [1, 2, 3], vertexIndex = 4\<rparr>
   \<and> addFace (Face_js \<lparr>face_vertices = [Vertex 0 0 0, Vertex 1 0 0],
                       face_normal = Normal 0 0 1\<rparr>)
     \<lparr>vertices = [JNum 7, JNum 8, JNum 9], normals = [JNum 1, JNum 0, JNum 0],
      indices = [], vertexIndex = 1\<rparr>
   = Inr \<lparr>vertices = [JNum 7, JNum 8, JNum 9], normals = [JNum 1, JNum 0, JNum 0],
          indices = [], vertexIndex = 1\<rparr>"
  using
    addFace_contribution [of
      "\<lparr>face_vertices = [Vertex 0 0 0, Vertex 1 0 0, Vertex 1 1 0, Vertex 0 1 0],
        face_normal = Normal 0 0 1\<rparr>"
      "\<lparr>vertices = [JNum 7, JNum 8, JNum 9], normals = [JNum 1, JNum 0, JNum 0],
        indices = [], vertexIndex = 1\<rparr>"]
    addFace_contribution [of
      "\<lparr>face_vertices = [Vertex 0 0 0, Vertex 1 0 0, Vertex 1 1 0],
        face_normal = Normal 0 0 1\<rparr>"
      "\<lparr>vertices = [JNum 7, JNum 8, JNum 9], normals = [JNum 1, JNum 0, JNum 0],
        indices = [], vertexIndex = 1\<rparr>"]
    addFace_contribution [of
      "\<lparr>face_vertices = [Vertex 0 0 0, Vertex 1 0 0],
        face_normal = Normal 0 0 1\<rparr>"
      "\<lparr>vertices = [JNum 7, JNum 8, JNum 9], normals = [JNum 1, JNum 0, JNum 0],
        indices = [], vertexIndex = 1\<rparr>"]
  by (simp add: coords_def ncoords_def eval_nat_numeral)

subsection \<open>Shape of the buffers, for any input value\<close>

lemma pushVertex_shape:
  "pushVertex face v b = Inr b' \<Longrightarrow>
     length (vertices b') = length (vertices b) + 3 \<and>
     length (normals b') = length (normals b) + 3 \<and>
     indices b' = indices b \<and> vertexIndex b' = vertexIndex b"
  by (auto simp: pushVertex_def andThen_def split: sum.splits)

lemma forEach_pushVertex_shape:
  "forEach vs (pushVertex face) b = Inr b' \<Longrightarrow>
     length (vertices b') = length (vertices b) + 3 * length vs \<and>
     length (normals b') = length (normals b) + 3 * length vs \<and>
     indices b' = indices b \<and> vertexIndex b' = vertexIndex b"
proof (induction vs arbitrary: b)
  case Nil
  then show ?case by simp
next
  case (Cons v vs)
  from Cons.prems obtain b1 where s: "pushVertex face v b = Inr b1"
    and r: "forEach vs (pushVertex face) b1 = Inr b'"
    by (auto split: sum.splits)
  from pushVertex_shape [OF s] Cons.IH [OF r] show ?case by simp
qed

lemma forEachTarget_Inr: "forEachTarget w = Inr vs \<Longrightarrow> w = JArr vs"
  by (cases w) simp_all

lemma vertices_length:
  assumes "getProp2 face ''vertices'' ''length'' = Inr len"
    and "andThen (getProp face ''vertices'') forEachTarget = Inr vs"
  shows "len = JNum (real (length vs))"
proof -
  from assms(2) obtain w where w: "getProp face ''vertices'' = Inr w" and t: "forEachTarget w = Inr vs"
    by (auto simp: andThen_def split: sum.splits)
  from t have "w = JArr vs" by (rule forEachTarget_Inr)
  with w assms(1) show ?thesis by (simp add: getProp2_def andThen_def)
qed

lemma addFace_consistent:
  assumes a: "addFace face b = Inr b'"
    and l: "length (vertices b) = 3 * vertexIndex b"
    and n: "length (normals b) = 3 * vertexIndex b"
    and i: "\<forall>k \<in> set (indices b). k < vertexIndex b"
  shows "length (vertices b') = 3 * vertexIndex b' \<and>
         length (normals b') = 3 * vertexIndex b' \<and>
         (\<forall>k \<in> set (indices b'). k < vertexIndex b')"
proof -
  from a obtain len where len: "getProp2 face ''vertices'' ''length'' = Inr len"
    by (auto simp: addFace_def andThen_def split: sum.splits)
  consider (quad) "len = JNum 4" | (tri) "len \<noteq> JNum 4" "len = JNum 3"
    | (other) "len \<noteq> JNum 4" "len \<noteq> JNum 3"
    by blast
  then show ?thesis
  proof cases
    case quad
    with a len obtain vs b1 where
      vs: "andThen (getProp face ''vertices'') forEachTarget = Inr vs"
      and b1: "forEach vs (pushVertex face) b = Inr b1"
      and b': "b' = b1\<lparr>indices := indices b1 @
                     [vertexIndex b1, vertexIndex b1 + 1, vertexIndex b1 + 2,
                      vertexIndex b1, vertexIndex b1 + 2, vertexIndex b1 + 3],
                   vertexIndex := vertexIndex b1 + 4\<rparr>"
      by (auto simp: addFace_def andThen_def split: sum.splits)
    from vertices_length [OF len vs] quad have "length vs = 4" by simp
    with forEach_pushVertex_shape [OF b1] l n i b' show ?thesis by auto
  next
    case tri
    with a len obtain vs b1 where
      vs: "andThen (getProp face ''vertices'') forEachTarget = Inr vs"
      and b1: "forEach vs (pushVertex face) b = Inr b1"
      and b': "b' = b1\<lparr>indices := indices b1 @
                     [vertexIndex b1, vertexIndex b1 + 1, vertexIndex b1 + 2],
                   vertexIndex := vertexIndex b1 + 3\<rparr>"
      by (auto simp: addFace_def andThen_def split: sum.splits)
    from vertices_length [OF len vs] tri have "length vs = 3" by simp
    with forEach_pushVertex_shape [OF b1] l n i b' show ?thesis by auto
  next
    case other
    with a len have "b' = b" by (simp add: addFace_def andThen_def)
    with l n i show ?thesis by simp
  qed
qed

lemma forEach_addFace_consistent:
  "forEach fs addFace b = Inr b' \<Longrightarrow>
   length (vertices b) = 3 * vertexIndex b \<Longrightarrow>
   length (normals b) = 3 * vertexIndex b \<Longrightarrow>
   \<forall>k \<in> set (indices b). k < vertexIndex b \<Longrightarrow>
   length (vertices b') = 3 * vertexIndex b' \<and>
   length (normals b') = 3 * vertexIndex b' \<and>
   (\<forall>k \<in> set (indices b'). k < vertexIndex b')"
proof (induction fs arbitrary: b)
  case Nil
  then show ?case by simp
next
  case (Cons f fs)
  from Cons.prems(1) obtain b1 where s: "addFace f b = Inr b1"
    and r: "forEach fs addFace b1 = Inr b'"
    by (auto split: sum.splits)
  from addFace_consistent [OF s Cons.prems(2) Cons.prems(3) Cons.prems(4)]
  show ?case using Cons.IH [OF r] by blast
qed

lemma buildBuffers_consistent:
  assumes "buildBuffers object = Inr b"
  shows "length (vertices b) = 3 * vertexIndex b \<and>
         length (normals b) = 3 * vertexIndex b \<and>
         (\<forall>k \<in> set (indices b). k < vertexIndex b)"
proof -
  from assms obtain fs where "forEach fs addFace emptyBuffers = Inr b"
    by (auto simp: buildBuffers_def andThen_def split: sum.splits)
  then show ?thesis
    by (rule forEach_addFace_consistent) (simp_all add: emptyBuffers_def)
qed

subsection \<open>Typed input never throws\<close>

lemma coords_numbers: "\<forall>v \<in> set (concat (map coords vs)). \<not> conv_throws v"
  by (induction vs) (simp_all add: coords_def)

lemma ncoords_numbers: "\<forall>v \<in> set (ncoords n). \<not> conv_throws v"
  by (simp add: ncoords_def)

lemma addFace_typed_total:
  "\<exists>b'. addFace (Face_js f) b = Inr b' \<and>
     ((\<forall>v \<in> set (vertices b). \<not> conv_throws v) \<longrightarrow> (\<forall>v \<in> set (vertices b'). \<not> conv_throws v)) \<and>
     ((\<forall>v \<in> set (normals b). \<not> conv_throws v) \<longrightarrow> (\<forall>v \<in> set (normals b'). \<not> conv_throws v))"
  using coords_numbers [of "face_vertices f"] ncoords_numbers [of "face_normal f"]
  by (auto simp: addFace_typed)

lemma forEach_addFace_typed_total:
  "\<exists>b'. forEach (map Face_js fs) addFace b = Inr b' \<and>
     ((\<forall>v \<in> set (vertices b). \<not> conv_throws v) \<longrightarrow> (\<forall>v \<in> set (vertices b'). \<not> conv_throws v)) \<and>
     ((\<forall>v \<in> set (normals b). \<not> conv_throws v) \<longrightarrow> (\<forall>v \<in> set (normals b'). \<not> conv_throws v))"
proof (induction fs arbitrary: b)
  case Nil
  show ?case by simp
next
  case (Cons f fs)
  from addFace_typed_total [of f b] obtain b1 where
    s: "addFace (Face_js f) b = Inr b1"
    and v: "(\<forall>v \<in> set (vertices b). \<not> conv_throws v) \<longrightarrow> (\<forall>v \<in> set (vertices b1). \<not> conv_throws v)"
    and n: "(\<forall>v \<in> set (normals b). \<not> conv_throws v) \<longrightarrow> (\<forall>v \<in> set (normals b1). \<not> conv_throws v)"
    by blast
  from Cons.IH [of b1] obtain b' where
    r: "forEach (map Face_js fs) addFace b1 = Inr b'"
    and v': "(\<forall>v \<in> set (vertices b1). \<not> conv_throws v) \<longrightarrow> (\<forall>v \<in> set (vertices b'). \<not> conv_throws v)"
    and n': "(\<forall>v \<in> set (normals b1). \<not> conv_throws v) \<longrightarrow> (\<forall>v \<in> set (normals b'). \<not> conv_throws v)"
    by blast
  from s r have "forEach (map Face_js (f # fs)) addFace b = Inr b'" by simp
  with v n v' n' show ?case by blast
qed

lemma forEach_addFace_quads:
  "\<forall>f \<in> set fs. length (face_vertices f) = 4 \<Longrightarrow>
   forEach (map Face_js fs) addFace b = Inr b' \<Longrightarrow>
   length (vertices b') = length (vertices b) + 12 * length fs \<and>
   length (indices b') = length (indices b) + 6 * length fs"
proof (induction fs arbitrary: b)
  case Nil
  then show ?case by simp
next
  case (Cons f fs)
  from Cons.prems(1) have q: "length (face_vertices f) = 4"
    and qs: "\<forall>f \<in> set fs. length (face_vertices f) = 4" by simp_all
  from Cons.prems(2) obtain b1 where s: "addFace (Face_js f) b = Inr b1"
    and r: "forEach (map Face_js fs) addFace b1 = Inr b'"
    by (auto split: sum.splits)
  have c: "length (concat (map coords (face_vertices f))) = 12"
    using q by (simp add: length_concat coords_def comp_def sum_list_triv)
  from s q c have "length (vertices b1) = length (vertices b) + 12"
    and "length (indices b1) = length (indices b) + 6"
    by (auto simp: addFace_typed)
  with Cons.IH [OF qs r] show ?case by simp
qed

section \<open>Properties of the load operation\<close>

lemma clearChildren_empty: "clearChildren cs = []"
  by (induction cs) simp_all

lemma createMesh_typed:
  "\<exists>b. buildBuffers (Object3D_js ob) = Inr b \<and>
       forEach (map Face_js (object_faces ob)) addFace emptyBuffers = Inr b \<and>
       createMeshFromObject (Object3D_js ob)
         = Inr \<lparr>position = vertices b, normal = normals b, index = indices b\<rparr> \<and>
       andThen (withName (Object3D_js ob) i) createMeshFromObject
         = Inr \<lparr>position = vertices b, normal = normals b, index = indices b\<rparr>"
proof -
  from forEach_addFace_typed_total [of "object_faces ob" emptyBuffers] obtain b where
    b: "forEach (map Face_js (object_faces ob)) addFace emptyBuffers = Inr b"
    and v: "\<forall>v \<in> set (vertices b). \<not> conv_throws v"
    and n: "\<forall>v \<in> set (normals b). \<not> conv_throws v"
    by (auto simp: emptyBuffers_def)
  have bb: "buildBuffers (Object3D_js ob) = Inr b"
    using b by (simp add: buildBuffers_def Object3D_js_def andThen_def)
  have c1: "createMeshFromObject (Object3D_js ob)
         = Inr \<lparr>position = vertices b, normal = normals b, index = indices b\<rparr>"
    using bb v n
    by (cases "object_name ob") (simp_all add: createMeshFromObject_def andThen_def Object3D_js_def)
  define nm where "nm = (case object_name ob of
       None \<Rightarrow> ''object'' @ digitsOf i
     | Some n \<Rightarrow> if n \<noteq> [] then n else ''object'' @ digitsOf i)"
  have w: "withName (Object3D_js ob) i =
      Inr (JObj ((''name'', JStr nm) # (''faces'', JArr (map Face_js (object_faces ob))) #
                 (case object_name ob of None \<Rightarrow> [] | Some n \<Rightarrow> [(''name'', JStr n)])))"
    by (cases "object_name ob") (simp_all add: nm_def withName_def andThen_def Object3D_js_def)
  have c2: "andThen (withName (Object3D_js ob) i) createMeshFromObject
         = Inr \<lparr>position = vertices b, normal = normals b, index = indices b\<rparr>"
    using b v n unfolding w
    by (simp add: createMeshFromObject_def buildBuffers_def andThen_def)
  from b bb c1 c2 show ?thesis by blast
qed

lemma addMeshes_typed:
  "\<exists>gs. addMeshes (map Object3D_js obs) i children = (None, children @ map Group gs) \<and>
        length gs = length obs \<and>
        ((\<forall>ob \<in> set obs. length (object_faces ob) = M \<and>
              (\<forall>f \<in> set (object_faces ob). length (face_vertices f) = 4)) \<longrightarrow>
           sum_list (map vertexCount gs) = length obs * M * 4 \<and>
           sum_list (map triangleCount gs) = length obs * M * 2)"
proof (induction obs arbitrary: i children)
  case Nil
  show ?case by simp
next
  case (Cons ob obs)
  from createMesh_typed [of ob i] obtain b where
    b: "forEach (map Face_js (object_faces ob)) addFace emptyBuffers = Inr b"
    and g: "andThen (withName (Object3D_js ob) i) createMeshFromObject
         = Inr \<lparr>position = vertices b, normal = normals b, index = indices b\<rparr>"
    by blast
  define g0 where "g0 = \<lparr>position = vertices b, normal = normals b, index = indices b\<rparr>"
  from Cons.IH [of "Suc i" "children @ [Group g0]"] obtain gs where
    r: "addMeshes (map Object3D_js obs) (Suc i) (children @ [Group g0])
          = (None, (children @ [Group g0]) @ map Group gs)"
    and l: "length gs = length obs"
    and c: "(\<forall>ob \<in> set obs. length (object_faces ob) = M \<and>
              (\<forall>f \<in> set (object_faces ob). length (face_vertices f) = 4)) \<longrightarrow>
           sum_list (map vertexCount gs) = length obs * M * 4 \<and>
           sum_list (map triangleCount gs) = length obs * M * 2"
    by blast
  have step: "addMeshes (map Object3D_js (ob # obs)) i children
          = (None, children @ map Group (g0 # gs))"
    using g r by (simp add: g0_def)
  have counts: "vertexCount g0 = M * 4 \<and> triangleCount g0 = M * 2"
    if q: "\<forall>f \<in> set (object_faces ob). length (face_vertices f) = 4"
      and m: "length (object_faces ob) = M"
    using forEach_addFace_quads [OF q b] m
    by (simp add: g0_def vertexCount_def triangleCount_def emptyBuffers_def)
  show ?case
  proof (intro exI [of _ "g0 # gs"] conjI impI)
    show "addMeshes (map Object3D_js (ob # obs)) i children = (None, children @ map Group (g0 # gs))"
      by (rule step)
    show "length (g0 # gs) = length (ob # obs)" using l by simp
  next
    assume a: "\<forall>ob \<in> set (ob # obs). length (object_faces ob) = M \<and>
              (\<forall>f \<in> set (object_faces ob). length (face_vertices f) = 4)"
    then have "vertexCount g0 = M * 4" "triangleCount g0 = M * 2"
      "sum_list (map vertexCount gs) = length obs * M * 4"
      "sum_list (map triangleCount gs) = length obs * M * 2"
      using counts c by simp_all
    then show "sum_list (map vertexCount (g0 # gs)) = length (ob # obs) * M * 4"
      and "sum_list (map triangleCount (g0 # gs)) = length (ob # obs) * M * 2"
      by (simp_all add: algebra_simps)
  qed
qed

lemma loadScene_typed:
  "loadScene (Some (SceneData_js obs)) children =
     addMeshes (map Object3D_js obs) 0 [AmbientLight, DirectionalLight, GridHelper]"
  by (simp add: loadScene_def SceneData_js_def andThen_def clearChildren_empty)

text \<open>
  C6. Loading a scene of \<open>N\<close> objects, each made of \<open>M\<close> faces of 4 vertices, succeeds
  and leaves, after the lights and the grid, \<open>N\<close> groups whose vertex counts add up to
  \<open>N * M * 4\<close> and whose triangle counts add up to \<open>N * M * 2\<close>.
\<close>

theorem quads_total_counts:
  assumes "sceneRef st = Some children"
    and "length obs = N"
    and "\<forall>ob \<in> set obs. length (object_faces ob) = M \<and>
           (\<forall>f \<in> set (object_faces ob). length (face_vertices f) = 4)"
  shows "\<exists>gs. handleJsonSubmit (Some (SceneData_js obs)) st
             = st\<lparr>sceneRef := Some ([AmbientLight, DirectionalLight, GridHelper] @ map Group gs),
                  error := []\<rparr>
           \<and> length gs = N
           \<and> sum_list (map vertexCount gs) = N * M * 4
           \<and> sum_list (map triangleCount gs) = N * M * 2"
proof -
  from addMeshes_typed [of obs 0 "[AmbientLight, DirectionalLight, GridHelper]" M] assms(2,3)
  obtain gs where
    a: "addMeshes (map Object3D_js obs) 0 [AmbientLight, DirectionalLight, GridHelper]
          = (None, [AmbientLight, DirectionalLight, GridHelper] @ map Group gs)"
    and l: "length gs = N"
    and c: "sum_list (map vertexCount gs) = N * M * 4"
       "sum_list (map triangleCount gs) = N * M * 2"
    by blast
  have "handleJsonSubmit (Some (SceneData_js obs)) st
             = st\<lparr>sceneRef := Some ([AmbientLight, DirectionalLight, GridHelper] @ map Group gs),
                  error := []\<rparr>"
    using assms(1) a by (simp add: handleJsonSubmit_def loadScene_typed)
  with l c show ?thesis by blast
qed

text \<open>Three objects of two quads each, one unnamed, one named, one with the empty
  name: 3 groups, 24 vertices, 12 triangles.\<close>

theorem quads_total_counts_witness:
  "\<exists>gs. handleJsonSubmit (Some (SceneData_js
       [\<lparr>object_faces =
            [\<lparr>face_vertices = [Vertex 0 0 0, Vertex 1 0 0, Vertex 1 1 0, Vertex 0 1 0],
              face_normal = Normal 0 0 1\<rparr>,
             \<lparr>face_vertices = [Vertex 0 0 1, Vertex 1 0 1, Vertex 1 1 1, Vertex 0 1 1],
              face_normal = Normal 0 0 1\<rparr>],
          object_name = None\<rparr>,
        \<lparr>object_faces =
            [\<lparr>face_vertices = [Vertex 0 0 2, Vertex 1 0 2, Vertex 1 1 2, Vertex 0 1 2],
              face_normal = Normal 0 0 1\<rparr>,
             \<lparr>face_vertices = [Vertex 0 0 3, Vertex 1 0 3, Vertex 1 1 3, Vertex 0 1 3],
              face_normal = Normal 0 0 1\<rparr>],
          object_name = Some ''lid''\<rparr>,
        \<lparr>object_faces =
            [\<lparr>face_vertices = [Vertex 0 0 4, Vertex 1 0 4, Vertex 1 1 4, Vertex 0 1 4],
              face_normal = Normal 0 0 1\<rparr>,
             \<lparr>face_vertices = [Vertex 0 0 5, Vertex 1 0 5, Vertex 1 1 5, Vertex 0 1 5],
              face_normal = Normal 0 0 1\<rparr>],
          object_name = Some []\<rparr>])) mounted
      = mounted\<lparr>sceneRef := Some ([AmbientLight, DirectionalLight, GridHelper] @ map Group gs),
                error := []\<rparr>
    \<and> length gs = 3
    \<and> sum_list (map vertexCount gs) = 24
    \<and> sum_list (map triangleCount gs) = 12"
proof -
  have s: "sceneRef mounted = Some [GridHelper]" by (simp add: mounted_def)
  show ?thesis
    using quads_total_counts [OF s, where N = 3 and M = 2 and obs =
       "[\<lparr>object_faces =
            [\<lparr>face_vertices = [Vertex 0 0 0, Vertex 1 0 0, Vertex 1 1 0, Vertex 0 1 0],
              face_normal = Normal 0 0 1\<rparr>,
             \<lparr>face_vertices = [Vertex 0 0 1, Vertex 1 0 1, Vertex 1 1 1, Vertex 0 1 1],
              face_normal = Normal 0 0 1\<rparr>],
          object_name = None\<rparr>,
        \<lparr>object_faces =
            [\<lparr>face_vertices = [Vertex 0 0 2, Vertex 1 0 2, Vertex 1 1 2, Vertex 0 1 2],
              face_normal = Normal 0 0 1\<rparr>,
             \<lparr>face_vertices = [Vertex 0 0 3, Vertex 1 0 3, Vertex 1 1 3, Vertex 0 1 3],
              face_normal = Normal 0 0 1\<rparr>],
          object_name = Some ''lid''\<rparr>,
        \<lparr>object_faces =
            [\<lparr>face_vertices = [Vertex 0 0 4, Vertex 1 0 4, Vertex 1 1 4, Vertex 0 1 4],
              face_normal = Normal 0 0 1\<rparr>,
             \<lparr>face_vertices = [Vertex 0 0 5, Vertex 1 0 5, Vertex 1 1 5, Vertex 0 1 5],
              face_normal = Normal 0 0 1\<rparr>],
          object_name = Some []\<rparr>]"]
    by simp
qed

text \<open>
  C7. Submitting the text \<^verbatim>\<open>{"objects": []}\<close>, which parses to an object whose only
  property \<^verbatim>\<open>objects\<close> is the empty array, succeeds: no exception reaches the handler,
  every prior child is removed, the scene holds exactly the ambient light, the directional
  light and the grid, and the error slot is empty.
\<close>

theorem empty_objects_load:
  assumes "sceneRef st = Some children"
  shows "loadScene (Some (JObj [(''objects'', JArr [])])) children
           = (None, [AmbientLight, DirectionalLight, GridHelper])
       \<and> handleJsonSubmit (Some (JObj [(''objects'', JArr [])])) st
           = st\<lparr>sceneRef := Some [AmbientLight, DirectionalLight, GridHelper], error := []\<rparr>"
  using assms by (simp add: handleJsonSubmit_def loadScene_def andThen_def clearChildren_empty)

text \<open>The submission to the mounted viewer, whose scene holds the grid only.\<close>

theorem empty_objects_load_witness:
  "sceneRef mounted = Some [GridHelper]
   \<and> handleJsonSubmit (Some (JObj [(''objects'', JArr [])])) mounted
       = mounted\<lparr>sceneRef := Some [AmbientLight, DirectionalLight, GridHelper], error := []\<rparr>"
proof -
  have s: "sceneRef mounted = Some [GridHelper]" by (simp add: mounted_def)
  from empty_objects_load [OF s] s show ?thesis by simp
qed


lemma addMeshes_first_failure:
  "k < length objs \<Longrightarrow>
   (\<forall>j < k. \<not> isl (meshOf (objs ! j) (i + j))) \<Longrightarrow>
   isl (meshOf (objs ! k) (i + k)) \<Longrightarrow>
   addMeshes objs i children =
     (Some (projl (meshOf (objs ! k) (i + k))),
      children @ map (\<lambda>j. Group (projr (meshOf (objs ! j) (i + j)))) [0..<k])"
proof (induction objs arbitrary: i children k)
  case Nil
  then show ?case by simp
next
  case (Cons obj objs)
  show ?case
  proof (cases k)
    case 0
    with Cons.prems(3) obtain e where "meshOf obj i = Inl e"
      by (cases "meshOf obj i") auto
    with 0 show ?thesis by simp
  next
    case (Suc k')
    with Cons.prems(2) have "\<not> isl (meshOf obj i)" by auto
    then obtain g where g: "meshOf obj i = Inr g" by (cases "meshOf obj i") auto
    have k': "k' < length objs" using Cons.prems(1) Suc by simp
    have before: "\<forall>j < k'. \<not> isl (meshOf (objs ! j) (Suc i + j))"
      using Cons.prems(2) Suc by auto
    have at: "isl (meshOf (objs ! k') (Suc i + k'))"
      using Cons.prems(3) Suc by simp
    show ?thesis
      using Cons.IH [OF k' before at, of "children @ [Group g]"] g Suc
      by (simp add: map_upt_Suc del: upt_Suc)
  qed
qed


lemma loadScene_cases:
  "loadScene None children = (Some SyntaxError, children)"
  "objectsOf data = Inl e \<Longrightarrow>
     loadScene (Some data) children = (Some e, [AmbientLight, DirectionalLight, GridHelper])"
  "objectsOf data = Inr objs \<Longrightarrow>
     loadScene (Some data) children = addMeshes objs 0 [AmbientLight, DirectionalLight, GridHelper]"
  by (simp_all add: loadScene_def clearChildren_empty)

text \<open>
  C1, as amended. Whenever a submission fails, the static error message is reported.
  When the failure is that the text is not JSON, nothing else changes: the scene is left
  exactly as it was. When the text is JSON, the prior children have all been removed
  before anything can fail: if \<^verbatim>\<open>data.objects.forEach\<close> throws, the scene holds exactly
  a fresh ambient light, directional light and grid; if the element at position \<open>k\<close> is
  the first whose group cannot be built, the scene holds those three followed by the
  newly built groups of the elements before \<open>k\<close>, in order, and nothing else.
\<close>

theorem failed_load:
  assumes "sceneRef st = Some children"
  shows "(parsed = None \<longrightarrow>
            handleJsonSubmit parsed st
              = st\<lparr>error := ''Invalid JSON format. Please check your input.''\<rparr>)
       \<and> (\<forall>data. parsed = Some data \<and> isl (objectsOf data) \<longrightarrow>
            handleJsonSubmit parsed st
              = st\<lparr>sceneRef := Some [AmbientLight, DirectionalLight, GridHelper],
                   error := ''Invalid JSON format. Please check your input.''\<rparr>)
       \<and> (\<forall>data objs k. parsed = Some data \<and> objectsOf data = Inr objs \<and> k < length objs
              \<and> (\<forall>j < k. \<not> isl (meshOf (objs ! j) j)) \<and> isl (meshOf (objs ! k) k) \<longrightarrow>
            handleJsonSubmit parsed st
              = st\<lparr>sceneRef := Some ([AmbientLight, DirectionalLight, GridHelper] @
                                       map (\<lambda>j. Group (projr (meshOf (objs ! j) j))) [0..<k]),
                   error := ''Invalid JSON format. Please check your input.''\<rparr>)"
proof (intro conjI allI impI)
  assume "parsed = None"
  with assms show "handleJsonSubmit parsed st
      = st\<lparr>error := ''Invalid JSON format. Please check your input.''\<rparr>"
    by (simp add: handleJsonSubmit_def loadScene_cases)
next
  fix data
  assume a: "parsed = Some data \<and> isl (objectsOf data)"
  then obtain e where "objectsOf data = Inl e" by (cases "objectsOf data") auto
  with a assms show "handleJsonSubmit parsed st
      = st\<lparr>sceneRef := Some [AmbientLight, DirectionalLight, GridHelper],
           error := ''Invalid JSON format. Please check your input.''\<rparr>"
    by (simp add: handleJsonSubmit_def loadScene_cases)
next
  fix data objs k
  assume a: "parsed = Some data \<and> objectsOf data = Inr objs \<and> k < length objs
              \<and> (\<forall>j < k. \<not> isl (meshOf (objs ! j) j)) \<and> isl (meshOf (objs ! k) k)"
  then have "addMeshes objs 0 [AmbientLight, DirectionalLight, GridHelper]
      = (Some (projl (meshOf (objs ! k) (0 + k))),
         [AmbientLight, DirectionalLight, GridHelper] @
           map (\<lambda>j. Group (projr (meshOf (objs ! j) (0 + j)))) [0..<k])"
    by (intro addMeshes_first_failure) simp_all
  with a assms show "handleJsonSubmit parsed st
      = st\<lparr>sceneRef := Some ([AmbientLight, DirectionalLight, GridHelper] @
                               map (\<lambda>j. Group (projr (meshOf (objs ! j) j))) [0..<k]),
           error := ''Invalid JSON format. Please check your input.''\<rparr>"
    by (simp add: handleJsonSubmit_def loadScene_cases)
qed

text \<open>The scene holds the lights, the grid and a loaded group. Three submissions fail:
  text that is not JSON, the text \<^verbatim>\<open>{"objects": 5}\<close>, and the text
  \<^verbatim>\<open>{"objects": [{"faces": []}, null]}\<close>, whose first object is built before the
  second throws.\<close>

theorem failed_load_witness:
  "handleJsonSubmit None
     (mounted\<lparr>sceneRef := Some [AmbientLight, DirectionalLight, GridHelper,
        Group \<lparr>position = [JNum 1, JNum 2, JNum 3], normal = [JNum 0, JNum 0, JNum 1],
               index = []\<rparr>]\<rparr>)
     = mounted\<lparr>sceneRef := Some [AmbientLight, DirectionalLight, GridHelper,
        Group \<lparr>position = [JNum 1, JNum 2, JNum 3], normal = [JNum 0, JNum 0, JNum 1],
               index = []\<rparr>],
        error := ''Invalid JSON format. Please check your input.''\<rparr>
   \<and> handleJsonSubmit (Some (JObj [(''objects'', JNum 5)]))
     (mounted\<lparr>sceneRef := Some [AmbientLight, DirectionalLight, GridHelper,
        Group \<lparr>position = [JNum 1, JNum 2, JNum 3], normal = [JNum 0, JNum 0, JNum 1],
               index = []\<rparr>]\<rparr>)
     = mounted\<lparr>sceneRef := Some [AmbientLight, DirectionalLight, GridHelper],
        error := ''Invalid JSON format. Please check your input.''\<rparr>
   \<and> handleJsonSubmit (Some (JObj [(''objects'', JArr [JObj [(''faces'', JArr [])], JNull])]))
     (mounted\<lparr>sceneRef := Some [AmbientLight, DirectionalLight, GridHelper,
        Group \<lparr>position = [JNum 1, JNum 2, JNum 3], normal = [JNum 0, JNum 0, JNum 1],
               index = []\<rparr>]\<rparr>)
     = mounted\<lparr>sceneRef := Some [AmbientLight, DirectionalLight, GridHelper,
        Group \<lparr>position = [], normal = [], index = []\<rparr>],
        error := ''Invalid JSON format. Please check your input.''\<rparr>"
proof -
  let ?g = "\<lparr>position = [JNum 1, JNum 2, JNum 3], normal = [JNum 0, JNum 0, JNum 1],
               index = []\<rparr>"
  let ?st = "mounted\<lparr>sceneRef := Some [AmbientLight, DirectionalLight, GridHelper, Group ?g]\<rparr>"
  let ?objs = "[JObj [(''faces'', JArr [])], JNull]"
  have s: "sceneRef ?st = Some [AmbientLight, DirectionalLight, GridHelper, Group ?g]"
    by simp
  have m0: "meshOf (?objs ! 0) 0 = Inr \<lparr>position = [], normal = [], index = []\<rparr>"
    by (simp add: withName_def createMeshFromObject_def buildBuffers_def andThen_def
        emptyBuffers_def digitsOf.simps [of 0])
  have m1: "meshOf (?objs ! Suc 0) (Suc 0) = Inl TypeError"
    by (simp add: withName_def andThen_def)
  have a: "handleJsonSubmit None ?st
      = ?st\<lparr>error := ''Invalid JSON format. Please check your input.''\<rparr>"
    using failed_load [OF s, of None] by simp
  have b: "handleJsonSubmit (Some (JObj [(''objects'', JNum 5)])) ?st
      = ?st\<lparr>sceneRef := Some [AmbientLight, DirectionalLight, GridHelper],
            error := ''Invalid JSON format. Please check your input.''\<rparr>"
    using failed_load [OF s, of "Some (JObj [(''objects'', JNum 5)])"]
    by (simp add: andThen_def)
  from failed_load [OF s, of "Some (JObj [(''objects'', JArr ?objs)])"]
  have "\<forall>data objs k. Some (JObj [(''objects'', JArr ?objs)]) = Some data
          \<and> objectsOf data = Inr objs \<and> k < length objs
          \<and> (\<forall>j < k. \<not> isl (meshOf (objs ! j) j)) \<and> isl (meshOf (objs ! k) k) \<longrightarrow>
        handleJsonSubmit (Some (JObj [(''objects'', JArr ?objs)])) ?st
          = ?st\<lparr>sceneRef := Some ([AmbientLight, DirectionalLight, GridHelper] @
                                   map (\<lambda>j. Group (projr (meshOf (objs ! j) j))) [0..<k]),
               error := ''Invalid JSON format. Please check your input.''\<rparr>"
    by blast
  then have "Some (JObj [(''objects'', JArr ?objs)]) = Some (JObj [(''objects'', JArr ?objs)])
          \<and> objectsOf (JObj [(''objects'', JArr ?objs)]) = Inr ?objs \<and> Suc 0 < length ?objs
          \<and> (\<forall>j < Suc 0. \<not> isl (meshOf (?objs ! j) j)) \<and> isl (meshOf (?objs ! Suc 0) (Suc 0)) \<longrightarrow>
        handleJsonSubmit (Some (JObj [(''objects'', JArr ?objs)])) ?st
          = ?st\<lparr>sceneRef := Some ([AmbientLight, DirectionalLight, GridHelper] @
                                   map (\<lambda>j. Group (projr (meshOf (?objs ! j) j))) [0..<Suc 0]),
               error := ''Invalid JSON format. Please check your input.''\<rparr>"
    by blast
  moreover have "objectsOf (JObj [(''objects'', JArr ?objs)]) = Inr ?objs"
    by (simp add: andThen_def)
  moreover have "\<forall>j < Suc 0. \<not> isl (meshOf (?objs ! j) j)"
    using m0 by simp
  moreover have "isl (meshOf (?objs ! Suc 0) (Suc 0))" using m1 by simp
  ultimately have c: "handleJsonSubmit (Some (JObj [(''objects'', JArr ?objs)])) ?st
          = ?st\<lparr>sceneRef := Some ([AmbientLight, DirectionalLight, GridHelper] @
                                   map (\<lambda>j. Group (projr (meshOf (?objs ! j) j))) [0..<Suc 0]),
               error := ''Invalid JSON format. Please check your input.''\<rparr>"
    by simp
  have c': "handleJsonSubmit (Some (JObj [(''objects'', JArr ?objs)])) ?st
          = ?st\<lparr>sceneRef := Some [AmbientLight, DirectionalLight, GridHelper,
                 Group \<lparr>position = [], normal = [], index = []\<rparr>],
               error := ''Invalid JSON format. Please check your input.''\<rparr>"
    unfolding c using m0 by simp
  from a b c' show ?thesis by simp
qed

text \<open>
  C1 as stated fails. The scene holds the lights, the grid and one loaded group; the text
  \<^verbatim>\<open>{}\<close> is submitted. It parses, the scene is cleared and lit again, and only then
  \<^verbatim>\<open>data.objects.forEach\<close> throws: the load fails and the group is gone.
\<close>

theorem failed_load_counterexample:
  "sceneRef (mounted\<lparr>sceneRef := Some [AmbientLight, DirectionalLight, GridHelper,
                                      Group \<lparr>position = [], normal = [], index = []\<rparr>]\<rparr>)
     = Some [AmbientLight, DirectionalLight, GridHelper,
             Group \<lparr>position = [], normal = [], index = []\<rparr>]
   \<and> fst (loadScene (Some (JObj []))
           [AmbientLight, DirectionalLight, GridHelper,
            Group \<lparr>position = [], normal = [], index = []\<rparr>]) = Some TypeError
   \<and> sceneRef (handleJsonSubmit (Some (JObj []))
        (mounted\<lparr>sceneRef := Some [AmbientLight, DirectionalLight, GridHelper,
                                    Group \<lparr>position = [], normal = [], index = []\<rparr>]\<rparr>))
     = Some [AmbientLight, DirectionalLight, GridHelper]
   \<and> sceneRef (handleJsonSubmit (Some (JObj []))
        (mounted\<lparr>sceneRef := Some [AmbientLight, DirectionalLight, GridHelper,
                                    Group \<lparr>position = [], normal = [], index = []\<rparr>]\<rparr>))
     \<noteq> sceneRef (mounted\<lparr>sceneRef := Some [AmbientLight, DirectionalLight, GridHelper,
                                      Group \<lparr>position = [], normal = [], index = []\<rparr>]\<rparr>)"
  by (simp add: handleJsonSubmit_def loadScene_def andThen_def mounted_def)






text \<open>
  C10. For every \<^verbatim>\<open>Object3D\<close> the builder returns normally, the group is made of the
  arrays it built, the positions and the normals have the same length, three times the
  final vertex offset, and every index is below that offset.
\<close>

theorem buffers_consistent:
  "\<exists>b. buildBuffers (Object3D_js ob) = Inr b
      \<and> createMeshFromObject (Object3D_js ob)
          = Inr \<lparr>position = vertices b, normal = normals b, index = indices b\<rparr>
      \<and> length (vertices b) = length (normals b)
      \<and> length (vertices b) = 3 * vertexIndex b
      \<and> (\<forall>k \<in> set (indices b). k < vertexIndex b)"
proof -
  from createMesh_typed [of ob 0] obtain b where
    b: "buildBuffers (Object3D_js ob) = Inr b"
    and g: "createMeshFromObject (Object3D_js ob)
          = Inr \<lparr>position = vertices b, normal = normals b, index = indices b\<rparr>"
    by blast
  from buildBuffers_consistent [OF b] b g show ?thesis by auto
qed

theorem buffers_consistent_witness:
  "\<exists>b. buildBuffers (Object3D_js \<lparr>object_faces =
            [\<lparr>face_vertices = [Vertex 0 0 0, Vertex 1 0 0, Vertex 1 1 0, Vertex 0 1 0],
              face_normal = Normal 0 0 1\<rparr>,
             \<lparr>face_vertices = [Vertex 0 0 0, Vertex 1 0 0], face_normal = Normal 0 0 1\<rparr>,
             \<lparr>face_vertices = [Vertex 0 0 0, Vertex 1 0 0, Vertex 0 0 1],
              face_normal = Normal 0 1 0\<rparr>],
            object_name = None\<rparr>) = Inr b
      \<and> indices b = [0, 1, 2, 0, 2, 3, 4, 5, 6]
      \<and> vertexIndex b = 7
      \<and> length (vertices b) = 21
      \<and> length (normals b) = 21"
proof -
  let ?ob = "\<lparr>object_faces =
            [\<lparr>face_vertices = [Vertex 0 0 0, Vertex 1 0 0, Vertex 1 1 0, Vertex 0 1 0],
              face_normal = Normal 0 0 1\<rparr>,
             \<lparr>face_vertices = [Vertex 0 0 0, Vertex 1 0 0], face_normal = Normal 0 0 1\<rparr>,
             \<lparr>face_vertices = [Vertex 0 0 0, Vertex 1 0 0, Vertex 0 0 1],
              face_normal = Normal 0 1 0\<rparr>],
            object_name = None\<rparr>"
  from buffers_consistent [of ?ob] obtain b where
    b: "buildBuffers (Object3D_js ?ob) = Inr b"
    and l: "length (vertices b) = length (normals b)" "length (vertices b) = 3 * vertexIndex b"
    and k: "\<forall>k \<in> set (indices b). k < vertexIndex b"
    by blast
  have "\<exists>b'. buildBuffers (Object3D_js ?ob) = Inr b' \<and> indices b' = [0, 1, 2, 0, 2, 3, 4, 5, 6]
           \<and> vertexIndex b' = 7"
    by (simp add: buildBuffers_def Object3D_js_def andThen_def addFace_typed emptyBuffers_def)
  with b have "indices b = [0, 1, 2, 0, 2, 3, 4, 5, 6]" "vertexIndex b = 7" by auto
  with b l k show ?thesis by auto
qed

section \<open>Properties of the orbit camera\<close>

subsection \<open>The tilt is a rotation of the plane of \<open>y\<close> and \<open>z\<close>\<close>

lemma radius_pos: assumes "0 < z" shows "sqrt (z * z + y * y) = z * sqrt (1 + (y / z)\<^sup>2)"
proof -
  have "z * z + y * y = z\<^sup>2 * (1 + (y / z)\<^sup>2)"
    using assms by (simp add: power2_eq_square field_simps)
  then have "sqrt (z * z + y * y) = sqrt (z\<^sup>2) * sqrt (1 + (y / z)\<^sup>2)"
    by (simp add: real_sqrt_mult)
  with assms show ?thesis by simp
qed

lemma radius_neg: assumes "z < 0" shows "sqrt (z * z + y * y) = - z * sqrt (1 + (y / z)\<^sup>2)"
proof -
  have "z * z + y * y = z\<^sup>2 * (1 + (y / z)\<^sup>2)"
    using assms by (simp add: power2_eq_square field_simps)
  then have "sqrt (z * z + y * y) = sqrt (z\<^sup>2) * sqrt (1 + (y / z)\<^sup>2)"
    by (simp add: real_sqrt_mult)
  with assms show ?thesis by simp
qed

lemma sqrt_one_plus_pos: "0 < sqrt (1 + (t::real)\<^sup>2)"
  by (simp add: add_pos_nonneg)

lemma polar_cos: "sqrt (z * z + y * y) * cos (atan2 y z) = z"
proof -
  consider (pos) "0 < z" | (neg) "z < 0" | (zero) "z = 0" by linarith
  then show ?thesis
  proof cases
    case pos
    then show ?thesis
      using sqrt_one_plus_pos [of "y / z"]
      by (simp add: atan2_def radius_pos cos_arctan)
  next
    case neg
    then show ?thesis
      using sqrt_one_plus_pos [of "y / z"]
      by (simp add: atan2_def radius_neg cos_arctan)
  next
    case zero
    then show ?thesis by (simp add: atan2_def)
  qed
qed

lemma polar_sin: "sqrt (z * z + y * y) * sin (atan2 y z) = y"
proof -
  consider (pos) "0 < z" | (neg) "z < 0" | (zero) "z = 0" by linarith
  then show ?thesis
  proof cases
    case pos
    then show ?thesis
      using sqrt_one_plus_pos [of "y / z"]
      by (simp add: atan2_def radius_pos sin_arctan)
  next
    case neg
    then show ?thesis
      using sqrt_one_plus_pos [of "y / z"]
      by (simp add: atan2_def radius_neg sin_arctan)
  next
    case zero
    then show ?thesis by (simp add: atan2_def)
  qed
qed

lemma tilt_sin:
  "sqrt (z * z + y * y) * sin (atan2 y z + d) = y * cos d + z * sin d"
proof -
  have "sqrt (z * z + y * y) * sin (atan2 y z + d)
      = (sqrt (z * z + y * y) * sin (atan2 y z)) * cos d
        + (sqrt (z * z + y * y) * cos (atan2 y z)) * sin d"
    by (simp add: sin_add algebra_simps)
  then show ?thesis by (simp only: polar_sin polar_cos)
qed

lemma tilt_cos:
  "sqrt (z * z + y * y) * cos (atan2 y z + d) = z * cos d - y * sin d"
proof -
  have "sqrt (z * z + y * y) * cos (atan2 y z + d)
      = (sqrt (z * z + y * y) * cos (atan2 y z)) * cos d
        - (sqrt (z * z + y * y) * sin (atan2 y z)) * sin d"
    by (simp add: cos_add algebra_simps)
  then show ?thesis by (simp only: polar_sin polar_cos)
qed

lemma handleMouseMove_step:
  assumes "cameraRef st = Some (Vec3 x y z)" and "isMouseDown (mouseControls st)"
  shows "handleMouseMove e st =
     st\<lparr>cameraRef := Some (Vec3
            (x * cos ((clientX e - lastX (mouseControls st)) * 0.01)
               - z * sin ((clientX e - lastX (mouseControls st)) * 0.01))
            (y * cos ((clientY e - lastY (mouseControls st)) * 0.01)
               + ((x * cos ((clientX e - lastX (mouseControls st)) * 0.01)
                     - z * sin ((clientX e - lastX (mouseControls st)) * 0.01))
                    * sin ((clientX e - lastX (mouseControls st)) * 0.01)
                  + z * cos ((clientX e - lastX (mouseControls st)) * 0.01))
                 * sin ((clientY e - lastY (mouseControls st)) * 0.01))
            (((x * cos ((clientX e - lastX (mouseControls st)) * 0.01)
                     - z * sin ((clientX e - lastX (mouseControls st)) * 0.01))
                    * sin ((clientX e - lastX (mouseControls st)) * 0.01)
                  + z * cos ((clientX e - lastX (mouseControls st)) * 0.01))
                 * cos ((clientY e - lastY (mouseControls st)) * 0.01)
               - y * sin ((clientY e - lastY (mouseControls st)) * 0.01))),
        mouseControls := (mouseControls st)\<lparr>lastX := clientX e, lastY := clientY e\<rparr>\<rparr>"
  using assms by (simp add: handleMouseMove_def Let_def tilt_sin tilt_cos)

subsection \<open>Drag gestures\<close>

lemma tilt_twice_y:
  "(y * cos a + z * sin a) * cos b + (z * cos a - y * sin a) * sin b
     = y * cos (a + b) + z * sin (a + b)" for y z a b :: real
  by (simp add: cos_add sin_add algebra_simps)

lemma tilt_twice_z:
  "(z * cos a - y * sin a) * cos b - (y * cos a + z * sin a) * sin b
     = z * cos (a + b) - y * sin (a + b)" for y z a b :: real
  by (simp add: cos_add sin_add algebra_simps)

lemma sheared_square:
  fixes s c :: real
  assumes "s * s + c * c = 1"
  shows "(- 5 * s) * (- 5 * s) + 0 * 0 + (- 5 * s * s + 5 * c) * (- 5 * s * s + 5 * c)
           = 25 - 25 * ((s * s) * (2 * c - s * s))"
proof -
  have "(- 5 * s) * (- 5 * s) + 0 * 0 + (- 5 * s * s + 5 * c) * (- 5 * s * s + 5 * c)
      = 25 * (s * s + c * c) - 25 * ((s * s) * (2 * c - s * s))"
    by (simp add: algebra_simps)
  with assms show ?thesis by simp
qed

lemma vertical_moves:
  assumes "cameraRef s = Some (Vec3 x y z)"
    and "isMouseDown (mouseControls s)"
    and "\<forall>e \<in> set moves. clientX e = lastX (mouseControls s)"
  shows "cameraRef (foldl (\<lambda>s e. handleMouseMove e s) s moves)
           = Some (Vec3 x
               (y * cos ((clientY (last (\<lparr>clientX = 0, clientY = lastY (mouseControls s)\<rparr> # moves))
                            - lastY (mouseControls s)) * 0.01)
                + z * sin ((clientY (last (\<lparr>clientX = 0, clientY = lastY (mouseControls s)\<rparr> # moves))
                            - lastY (mouseControls s)) * 0.01))
               (z * cos ((clientY (last (\<lparr>clientX = 0, clientY = lastY (mouseControls s)\<rparr> # moves))
                            - lastY (mouseControls s)) * 0.01)
                - y * sin ((clientY (last (\<lparr>clientX = 0, clientY = lastY (mouseControls s)\<rparr> # moves))
                            - lastY (mouseControls s)) * 0.01)))"
  using assms
proof (induction moves arbitrary: s y z)
  case Nil
  then show ?case by simp
next
  case (Cons e es)
  let ?L = "lastY (mouseControls s)"
  let ?d = "(clientY e - ?L) * 0.01"
  let ?s1 = "handleMouseMove e s"
  let ?y1 = "y * cos ?d + z * sin ?d"
  let ?z1 = "z * cos ?d - y * sin ?d"
  have ex: "clientX e = lastX (mouseControls s)" using Cons.prems(3) by simp
  have s1: "?s1 = s\<lparr>cameraRef := Some (Vec3 x ?y1 ?z1),
               mouseControls := (mouseControls s)\<lparr>lastX := clientX e, lastY := clientY e\<rparr>\<rparr>"
    using handleMouseMove_step [OF Cons.prems(1) Cons.prems(2), of e] ex by simp
  have c1: "cameraRef ?s1 = Some (Vec3 x ?y1 ?z1)" by (simp add: s1)
  have d1: "isMouseDown (mouseControls ?s1)" using Cons.prems(2) by (simp add: s1)
  have l1: "lastY (mouseControls ?s1) = clientY e" by (simp add: s1)
  have x1: "\<forall>e' \<in> set es. clientX e' = lastX (mouseControls ?s1)"
    using Cons.prems(3) by (simp add: s1)
  let ?E = "clientY (last (\<lparr>clientX = 0, clientY = clientY e\<rparr> # es))"
  let ?D = "(?E - clientY e) * 0.01"
  have ih: "cameraRef (foldl (\<lambda>s e. handleMouseMove e s) ?s1 es)
      = Some (Vec3 x (?y1 * cos ?D + ?z1 * sin ?D) (?z1 * cos ?D - ?y1 * sin ?D))"
    using Cons.IH [OF c1 d1 x1] unfolding l1 .
  have E: "clientY (last (\<lparr>clientX = 0, clientY = ?L\<rparr> # e # es)) = ?E"
    by (cases es) simp_all
  have sum: "(?E - ?L) * 0.01 = ?d + ?D" by (simp add: field_simps)
  have ys: "?y1 * cos ?D + ?z1 * sin ?D = y * cos (?d + ?D) + z * sin (?d + ?D)"
    by (rule tilt_twice_y)
  have zs: "?z1 * cos ?D - ?y1 * sin ?D = z * cos (?d + ?D) - y * sin (?d + ?D)"
    by (rule tilt_twice_z)
  show ?case
    unfolding E sum using ih by (simp only: ys zs foldl_Cons)
qed

lemma vertical_drag_returns:
  assumes "cameraRef st = Some p"
    and "\<forall>e \<in> set moves. clientX e = clientX e0"
    and "clientY (last (e0 # moves)) = clientY e0"
  shows "cameraRef (dragGesture e0 moves st) = Some p"
proof -
  obtain x y z where p: "p = Vec3 x y z" by (cases p)
  let ?s = "handleMouseDown e0 st"
  have c: "cameraRef ?s = Some (Vec3 x y z)" using assms(1) p by (simp add: handleMouseDown_def)
  have d: "isMouseDown (mouseControls ?s)" by (simp add: handleMouseDown_def)
  have lx: "\<forall>e \<in> set moves. clientX e = lastX (mouseControls ?s)"
    using assms(2) by (simp add: handleMouseDown_def)
  have ly: "lastY (mouseControls ?s) = clientY e0" by (simp add: handleMouseDown_def)
  have e: "clientY (last (\<lparr>clientX = 0, clientY = clientY e0\<rparr> # moves)) = clientY e0"
    using assms(3) by (cases moves) simp_all
  from vertical_moves [OF c d lx] show ?thesis
    unfolding ly e by (simp add: dragGesture_def p)
qed

lemma rotated_squares:
  fixes u v s c :: real
  shows "(u * c + v * s)\<^sup>2 + (v * c - u * s)\<^sup>2 = (u\<^sup>2 + v\<^sup>2) * (s\<^sup>2 + c\<^sup>2)"
  by (simp add: power2_eq_square algebra_simps)

lemma yzDistance_tilt: "yzDistance (tilt d a) (tilt d b) = yzDistance a b"
proof -
  have y: "vy a * cos d + vz a * sin d - (vy b * cos d + vz b * sin d)
             = (vy a - vy b) * cos d + (vz a - vz b) * sin d"
    by (simp add: algebra_simps)
  have z: "vz a * cos d - vy a * sin d - (vz b * cos d - vy b * sin d)
             = (vz a - vz b) * cos d - (vy a - vy b) * sin d"
    by (simp add: algebra_simps)
  have "((vy a - vy b) * cos d + (vz a - vz b) * sin d)\<^sup>2
        + ((vz a - vz b) * cos d - (vy a - vy b) * sin d)\<^sup>2
      = ((vy a - vy b)\<^sup>2 + (vz a - vz b)\<^sup>2) * ((sin d)\<^sup>2 + (cos d)\<^sup>2)"
    by (rule rotated_squares)
  then show ?thesis unfolding yzDistance_def tilt_def vec3.sel y z by simp
qed

lemma yzDistance_triangle: "yzDistance a c \<le> yzDistance a b + yzDistance b c"
proof -
  have "sqrt (((vy a - vy b) + (vy b - vy c))\<^sup>2 + ((vz a - vz b) + (vz b - vz c))\<^sup>2)
      \<le> sqrt ((vy a - vy b)\<^sup>2 + (vz a - vz b)\<^sup>2) + sqrt ((vy b - vy c)\<^sup>2 + (vz b - vz c)\<^sup>2)"
    by (rule real_sqrt_sum_squares_triangle_ineq)
  then show ?thesis by (simp add: yzDistance_def)
qed

lemma yzDistance_self: "yzDistance a a = 0"
  by (simp add: yzDistance_def)

lemma tilt_tilt: "tilt b (tilt a p) = tilt (a + b) p"
  by (simp add: tilt_def tilt_twice_y tilt_twice_z)

lemma tilt_zero: "tilt 0 p = p"
  by (cases p) (simp add: tilt_def)

lemma vx_tilt: "vx (tilt d p) = vx p"
  by (simp add: tilt_def)

lemma vertical_move_tilts:
  assumes "cameraRef s = Some q" and "isMouseDown (mouseControls s)"
    and "clientX e = lastX (mouseControls s)"
  shows "handleMouseMove e s =
     s\<lparr>cameraRef := Some (tilt ((clientY e - lastY (mouseControls s)) * 0.01) q),
       mouseControls := (mouseControls s)\<lparr>lastX := clientX e, lastY := clientY e\<rparr>\<rparr>"
proof (cases q)
  case (Vec3 x y z)
  with assms(1) have c: "cameraRef s = Some (Vec3 x y z)" by simp
  show ?thesis
    using handleMouseMove_step [OF c assms(2), of e] assms(3) Vec3 by (simp add: tilt_def)
qed

lemma tolerant_vertical_moves:
  assumes "cameraRef s = Some q"
    and "isMouseDown (mouseControls s)"
    and "\<forall>e \<in> set moves. clientX e = lastX (mouseControls s)"
    and "withinTolerance eps s moves qs"
    and "\<bar>vx q - vx r\<bar> \<le> c"
    and "yzDistance q r \<le> c"
  shows "\<bar>vx (last (q # qs)) - vx r\<bar> \<le> c + real (length moves) * eps
       \<and> yzDistance (last (q # qs))
            (tilt ((clientY (last (\<lparr>clientX = 0, clientY = lastY (mouseControls s)\<rparr> # moves))
                     - lastY (mouseControls s)) * 0.01) r)
          \<le> c + real (length moves) * eps"
  using assms
proof (induction moves arbitrary: s q qs r c)
  case Nil
  then have "qs = []" by (cases qs) simp_all
  with Nil show ?case by (simp add: tilt_zero)
next
  case (Cons e es)
  from Cons.prems(4) obtain q1 qs' where qs: "qs = q1 # qs'" by (cases qs) simp_all
  let ?L = "lastY (mouseControls s)"
  let ?d = "(clientY e - ?L) * 0.01"
  have ex: "clientX e = lastX (mouseControls s)" using Cons.prems(3) by simp
  have mv: "handleMouseMove e s =
     s\<lparr>cameraRef := Some (tilt ?d q),
       mouseControls := (mouseControls s)\<lparr>lastX := clientX e, lastY := clientY e\<rparr>\<rparr>"
    by (rule vertical_move_tilts [OF Cons.prems(1) Cons.prems(2) ex])
  let ?s1 = "(handleMouseMove e s)\<lparr>cameraRef := Some q1\<rparr>"
  from Cons.prems(4) have near_x: "\<bar>vx q1 - vx q\<bar> \<le> eps"
    and near_yz: "yzDistance q1 (tilt ?d q) \<le> eps"
    and rest: "withinTolerance eps ?s1 es qs'"
    by (simp_all add: qs mv vx_tilt)
  have c1: "cameraRef ?s1 = Some q1" by simp
  have d1: "isMouseDown (mouseControls ?s1)" using Cons.prems(2) by (simp add: mv)
  have l1: "lastY (mouseControls ?s1) = clientY e" by (simp add: mv)
  have x1: "\<forall>e' \<in> set es. clientX e' = lastX (mouseControls ?s1)"
    using Cons.prems(3) by (simp add: mv)
  have rx: "\<bar>vx q1 - vx (tilt ?d r)\<bar> \<le> c + eps"
    using near_x Cons.prems(5) by (simp add: vx_tilt)
  have ryz: "yzDistance q1 (tilt ?d r) \<le> c + eps"
  proof -
    have "yzDistance q1 (tilt ?d r) \<le> yzDistance q1 (tilt ?d q) + yzDistance (tilt ?d q) (tilt ?d r)"
      by (rule yzDistance_triangle)
    also have "\<dots> \<le> eps + c"
      using near_yz Cons.prems(6) by (simp add: yzDistance_tilt)
    finally show ?thesis by simp
  qed
  let ?E = "clientY (last (\<lparr>clientX = 0, clientY = clientY e\<rparr> # es))"
  let ?D = "(?E - clientY e) * 0.01"
  from Cons.IH [OF c1 d1 x1 rest rx ryz]
  have ih: "\<bar>vx (last (q1 # qs')) - vx (tilt ?d r)\<bar> \<le> (c + eps) + real (length es) * eps
       \<and> yzDistance (last (q1 # qs')) (tilt ?D (tilt ?d r)) \<le> (c + eps) + real (length es) * eps"
    unfolding l1 .
  have E: "clientY (last (\<lparr>clientX = 0, clientY = ?L\<rparr> # e # es)) = ?E"
    by (cases es) simp_all
  have sum: "(?E - ?L) * 0.01 = ?d + ?D" by (simp add: field_simps)
  have cnt: "(c + eps) + real (length es) * eps = c + real (length (e # es)) * eps"
    by (simp add: algebra_simps)
  have lst: "last (q # qs) = last (q1 # qs')" by (simp add: qs)
  show ?case
    unfolding E sum lst using ih unfolding tilt_tilt cnt by (simp add: vx_tilt)
qed

text \<open>
  C4, as amended. For a drag gesture whose moves all keep the horizontal cursor coordinate
  of the mouse-down and which ends at the vertical coordinate where it started, the camera
  position after the gesture equals the position before it within floating tolerance:
  the updates compose to the identity in exact arithmetic, and when every move is computed
  to within \<open>eps\<close> of its exact update, the position reached after \<open>n\<close> moves is within
  \<open>n * eps\<close> of the position before the gesture.
\<close>

theorem vertical_drag_within_tolerance:
  assumes "cameraRef st = Some p"
    and "\<forall>e \<in> set moves. clientX e = clientX e0"
    and "clientY (last (e0 # moves)) = clientY e0"
    and "withinTolerance eps (handleMouseDown e0 st) moves qs"
  shows "cameraRef (dragGesture e0 moves st) = Some p
       \<and> \<bar>vx (last (p # qs)) - vx p\<bar> \<le> real (length moves) * eps
       \<and> yzDistance (last (p # qs)) p \<le> real (length moves) * eps"
proof -
  let ?s = "handleMouseDown e0 st"
  have c: "cameraRef ?s = Some p" using assms(1) by (simp add: handleMouseDown_def)
  have d: "isMouseDown (mouseControls ?s)" by (simp add: handleMouseDown_def)
  have lx: "\<forall>e \<in> set moves. clientX e = lastX (mouseControls ?s)"
    using assms(2) by (simp add: handleMouseDown_def)
  have ly: "lastY (mouseControls ?s) = clientY e0" by (simp add: handleMouseDown_def)
  have e: "clientY (last (\<lparr>clientX = 0, clientY = clientY e0\<rparr> # moves)) = clientY e0"
    using assms(3) by (cases moves) simp_all
  have "\<bar>vx p - vx p\<bar> \<le> 0" and "yzDistance p p \<le> 0" by (simp_all add: yzDistance_self)
  from tolerant_vertical_moves [OF c d lx assms(4) this]
  have "\<bar>vx (last (p # qs)) - vx p\<bar> \<le> real (length moves) * eps
       \<and> yzDistance (last (p # qs)) p \<le> real (length moves) * eps"
    unfolding ly e by (simp add: tilt_zero)
  moreover have "cameraRef (dragGesture e0 moves st) = Some p"
    by (rule vertical_drag_returns [OF assms(1) assms(2) assms(3)])
  ultimately show ?thesis by simp
qed

text \<open>Down at \<open>(0, 0)\<close>, to \<open>(0, 8)\<close> and back, from the initial camera; the first
  move is computed exactly and the second lands at \<open>y = 6.9e-17\<close>.\<close>

theorem vertical_drag_within_tolerance_witness:
  "cameraRef mounted = Some (Vec3 0 0 5)
   \<and> map clientX [\<lparr>clientX = 0, clientY = 8\<rparr>, \<lparr>clientX = 0, clientY = 0\<rparr>] = [0, 0]
   \<and> clientY (last [\<lparr>clientX = 0, clientY = 0\<rparr>, \<lparr>clientX = 0, clientY = 8\<rparr>,
                     \<lparr>clientX = 0, clientY = 0\<rparr>]) = 0
   \<and> withinTolerance (1 / 10 ^ 16) (handleMouseDown \<lparr>clientX = 0, clientY = 0\<rparr> mounted)
        [\<lparr>clientX = 0, clientY = 8\<rparr>, \<lparr>clientX = 0, clientY = 0\<rparr>]
        [Vec3 0 (5 * sin (2 / 25)) (5 * cos (2 / 25)), Vec3 0 (69 / 10 ^ 18) 5]
   \<and> cameraRef (dragGesture \<lparr>clientX = 0, clientY = 0\<rparr>
         [\<lparr>clientX = 0, clientY = 8\<rparr>, \<lparr>clientX = 0, clientY = 0\<rparr>] mounted) = Some (Vec3 0 0 5)
   \<and> yzDistance (Vec3 0 (69 / 10 ^ 18) 5) (Vec3 0 0 5) \<le> 2 / 10 ^ 16"
proof -
  let ?e0 = "\<lparr>clientX = 0, clientY = 0\<rparr>"
  let ?m1 = "\<lparr>clientX = 0, clientY = 8\<rparr>"
  let ?q1 = "Vec3 0 (5 * sin (2 / 25)) (5 * cos (2 / 25))"
  let ?q2 = "Vec3 0 (69 / 10 ^ 18) 5"
  let ?A = "handleMouseDown ?e0 mounted"
  have c: "cameraRef mounted = Some (Vec3 0 0 5)" by (simp add: mounted_def)
  have x: "\<forall>e \<in> set [?m1, ?e0]. clientX e = clientX ?e0" by simp
  have y: "clientY (last (?e0 # [?m1, ?e0])) = clientY ?e0" by simp
  have cA: "cameraRef ?A = Some (Vec3 0 0 5)" and dA: "isMouseDown (mouseControls ?A)"
    and xA: "clientX ?m1 = lastX (mouseControls ?A)"
    by (simp_all add: handleMouseDown_def mounted_def)
  have m1: "handleMouseMove ?m1 ?A =
      ?A\<lparr>cameraRef := Some ?q1,
         mouseControls := (mouseControls ?A)\<lparr>lastX := 0, lastY := 8\<rparr>\<rparr>"
    using vertical_move_tilts [OF cA dA xA] by (simp add: tilt_def handleMouseDown_def)
  let ?B = "(handleMouseMove ?m1 ?A)\<lparr>cameraRef := Some ?q1\<rparr>"
  have cB: "cameraRef ?B = Some ?q1" by simp
  have dB: "isMouseDown (mouseControls ?B)" using dA by (simp add: m1)
  have xB: "clientX ?e0 = lastX (mouseControls ?B)" by (simp add: m1)
  have lB: "lastY (mouseControls ?B) = 8" by (simp add: m1)
  have undo: "tilt (- (2 / 25)) ?q1 = Vec3 0 0 5"
  proof -
    define s where "s = sin (2 / 25 :: real)"
    define c where "c = cos (2 / 25 :: real)"
    have one: "s * s + c * c = 1"
      using sin_cos_squared_add [of "2 / 25 :: real"] by (simp add: s_def c_def power2_eq_square)
    have "5 * c * c + 5 * s * s = 5 * (s * s + c * c)" by (simp add: algebra_simps)
    then have "5 * c * c + 5 * s * s = 5" using one by simp
    then show ?thesis by (simp add: tilt_def s_def c_def)
  qed
  have lB': "lastY (mouseControls (handleMouseMove ?m1 ?A)) = 8" by (simp add: m1)
  have m2: "cameraRef (handleMouseMove ?e0 ?B) = Some (Vec3 0 0 5)"
    using vertical_move_tilts [OF cB dB xB] undo by (simp add: lB')
  have d0: "yzDistance ?q1 ?q1 = 0" by (rule yzDistance_self)
  have d2: "yzDistance ?q2 (Vec3 0 0 5) = 69 / 10 ^ 18" by (simp add: yzDistance_def)
  have cm1: "cameraRef (handleMouseMove ?m1 ?A) = Some ?q1" by (simp add: m1)
  have t1: "withinTolerance (1 / 10 ^ 16) ?B [?e0] [?q2]"
  proof -
    have "\<bar>vx ?q2 - vx (Vec3 0 0 5)\<bar> \<le> 1 / 10 ^ 16" by simp
    moreover have "yzDistance ?q2 (Vec3 0 0 5) \<le> 1 / 10 ^ 16" unfolding d2 by simp
    moreover have "withinTolerance (1 / 10 ^ 16)
        ((handleMouseMove ?e0 ?B)\<lparr>cameraRef := Some ?q2\<rparr>) [] []" by simp
    ultimately show ?thesis by (simp only: withinTolerance.simps m2 option.case simp_thms)
  qed
  have t: "withinTolerance (1 / 10 ^ 16) ?A [?m1, ?e0] [?q1, ?q2]"
  proof -
    have "\<bar>vx ?q1 - vx ?q1\<bar> \<le> 1 / 10 ^ 16" by simp
    moreover have "yzDistance ?q1 ?q1 \<le> 1 / 10 ^ 16" unfolding d0 by simp
    ultimately show ?thesis
      using t1 by (simp only: withinTolerance.simps cm1 option.case simp_thms)
  qed
  from vertical_drag_within_tolerance [OF c x y t] c t d2 show ?thesis by simp
qed

lemma sin_one_gt_half: "1 / 2 < sin (1::real)"
proof -
  have "pi / 6 < (1::real)" using pi_less_4 by simp
  moreover have "(1::real) \<le> pi / 2" using pi_ge_two by simp
  moreover have "- (pi / 2) \<le> pi / 6" using pi_gt_zero by simp
  ultimately have "sin (pi / 6) < sin (1::real)"
    by (intro sin_monotone_2pi) simp_all
  then show ?thesis by (simp add: sin_30)
qed

lemma cos_one_ge_half: "1 / 2 \<le> cos (1::real)"
proof -
  have "cos (2 * (1 / 2 :: real)) = 1 - 2 * (sin (1 / 2 :: real))\<^sup>2"
    by (rule cos_double_sin)
  then have c: "cos (1::real) = 1 - 2 * (sin (1 / 2 :: real))\<^sup>2" by simp
  have "\<bar>sin (1 / 2 :: real)\<bar> \<le> \<bar>1 / 2\<bar>" by (rule abs_sin_x_le_abs_x)
  then have "(sin (1 / 2 :: real))\<^sup>2 \<le> (1 / 2)\<^sup>2" by (simp only: abs_le_square_iff)
  then have "(sin (1 / 2 :: real))\<^sup>2 \<le> 1 / 4" by (simp add: power2_eq_square)
  with c show ?thesis by simp
qed

text \<open>
  C4 as stated fails. From the initial camera at \<open>(0, 0, 5)\<close> the button goes down at
  \<open>(0, 0)\<close>, the cursor moves to \<open>(100, 0)\<close> and back to \<open>(0, 0)\<close>: the net delta is
  zero, and the camera ends with \<open>x = - 5 sin\<^sup>3 1\<close>, more than half a unit away from
  the \<open>x = 0\<close> it started at, far beyond any rounding. On this gesture the cause is the
  overwritten \<open>x\<close> of the horizontal update.
\<close>

theorem zero_net_drag_counterexample:
  "last [\<lparr>clientX = 0, clientY = 0\<rparr>, \<lparr>clientX = 100, clientY = 0\<rparr>, \<lparr>clientX = 0, clientY = 0\<rparr>]
     = \<lparr>clientX = 0, clientY = 0\<rparr>
   \<and> cameraRef mounted = Some (Vec3 0 0 5)
   \<and> vx (the (cameraRef (dragGesture \<lparr>clientX = 0, clientY = 0\<rparr>
            [\<lparr>clientX = 100, clientY = 0\<rparr>, \<lparr>clientX = 0, clientY = 0\<rparr>] mounted))) < - (1 / 2)"
proof -
  let ?A = "handleMouseDown \<lparr>clientX = 0, clientY = 0\<rparr> mounted"
  let ?cs = "cos (1::real)" and ?sn = "sin (1::real)"
  have c0: "cameraRef ?A = Some (Vec3 0 0 5)" and d0: "isMouseDown (mouseControls ?A)"
    by (simp_all add: handleMouseDown_def mounted_def)
  let ?B = "handleMouseMove \<lparr>clientX = 100, clientY = 0\<rparr> ?A"
  have s1: "?B = ?A\<lparr>cameraRef := Some (Vec3 (- 5 * ?sn) 0 (- 5 * ?sn * ?sn + 5 * ?cs)),
               mouseControls := (mouseControls ?A)\<lparr>lastX := 100, lastY := 0\<rparr>\<rparr>"
    using handleMouseMove_step [OF c0 d0, of "\<lparr>clientX = 100, clientY = 0\<rparr>"]
    by (simp add: handleMouseDown_def)
  have c1: "cameraRef ?B = Some (Vec3 (- 5 * ?sn) 0 (- 5 * ?sn * ?sn + 5 * ?cs))"
    and d1: "isMouseDown (mouseControls ?B)"
    and l1: "lastX (mouseControls ?B) = 100" "lastY (mouseControls ?B) = 0"
    using d0 by (simp_all add: s1)
  let ?C = "handleMouseMove \<lparr>clientX = 0, clientY = 0\<rparr> ?B"
  have "vx (the (cameraRef ?C)) = (- 5 * ?sn) * ?cs + (- 5 * ?sn * ?sn + 5 * ?cs) * ?sn"
    using handleMouseMove_step [OF c1 d1, of "\<lparr>clientX = 0, clientY = 0\<rparr>"] l1
    by simp
  also have "\<dots> = - 5 * (?sn * ?sn * ?sn)" by (simp add: algebra_simps)
  finally have x2: "vx (the (cameraRef ?C)) = - 5 * (?sn * ?sn * ?sn)" .
  have h: "1 / 2 < ?sn" by (rule sin_one_gt_half)
  have "1 / 2 * (1 / 2) < ?sn * ?sn" using h by (intro mult_strict_mono) simp_all
  then have "1 / 4 * (1 / 2) < (?sn * ?sn) * ?sn" using h by (intro mult_strict_mono) simp_all
  then have "- 5 * (?sn * ?sn * ?sn) < - (1 / 2)" by simp
  with x2 have "vx (the (cameraRef ?C)) < - (1 / 2)" by simp
  then show ?thesis by (simp add: dragGesture_def mounted_def)
qed

lemma specMouseMove_step:
  assumes "cameraRef st = Some (Vec3 x y z)" and "isMouseDown (mouseControls st)"
  shows "specMouseMove e st =
     st\<lparr>cameraRef := Some (Vec3
            (x * cos ((clientX e - lastX (mouseControls st)) * 0.01)
               - z * sin ((clientX e - lastX (mouseControls st)) * 0.01))
            (y * cos ((clientY e - lastY (mouseControls st)) * 0.01)
               + (x * sin ((clientX e - lastX (mouseControls st)) * 0.01)
                  + z * cos ((clientX e - lastX (mouseControls st)) * 0.01))
                 * sin ((clientY e - lastY (mouseControls st)) * 0.01))
            ((x * sin ((clientX e - lastX (mouseControls st)) * 0.01)
                  + z * cos ((clientX e - lastX (mouseControls st)) * 0.01))
                 * cos ((clientY e - lastY (mouseControls st)) * 0.01)
               - y * sin ((clientY e - lastY (mouseControls st)) * 0.01))),
        mouseControls := (mouseControls st)\<lparr>lastX := clientX e, lastY := clientY e\<rparr>\<rparr>"
  using assms by (simp add: specMouseMove_def Let_def tilt_sin tilt_cos)

lemma cos_one_le: "cos (1::real) \<le> 7 / 8"
proof -
  have s: "1 / 2 < sin (1::real)" by (rule sin_one_gt_half)
  have "1 / 2 * (1 / 2) < sin (1::real) * sin 1" using s by (intro mult_strict_mono) simp_all
  then have "(cos (1::real))\<^sup>2 < 3 / 4"
    using sin_cos_squared_add [of "1::real"] by (simp add: power2_eq_square)
  then have "(cos (1::real))\<^sup>2 < (7 / 8)\<^sup>2" by (simp add: power2_eq_square)
  then have "cos (1::real) < 7 / 8" by (rule power2_less_imp_less) simp
  then show ?thesis by simp
qed

text \<open>
  The two rotations of the spec do not commute, and they are applied move by move: with
  both written as rotations, the gesture down at \<open>(0, 0)\<close>, to \<open>(100, 100)\<close> and back
  already ends more than an eighth of a unit away in \<open>x\<close>. A gesture that mixes both
  directions does not return, with or without the overwritten \<open>x\<close>.
\<close>

lemma spec_rotations_drift:
  "last [\<lparr>clientX = 0, clientY = 0\<rparr>, \<lparr>clientX = 100, clientY = 100\<rparr>, \<lparr>clientX = 0, clientY = 0\<rparr>]
     = \<lparr>clientX = 0, clientY = 0\<rparr>
   \<and> vx (the (cameraRef (foldl (\<lambda>s e. specMouseMove e s)
        (handleMouseDown \<lparr>clientX = 0, clientY = 0\<rparr> mounted)
        [\<lparr>clientX = 100, clientY = 100\<rparr>, \<lparr>clientX = 0, clientY = 0\<rparr>]))) < - (1 / 8)"
proof -
  let ?A = "handleMouseDown \<lparr>clientX = 0, clientY = 0\<rparr> mounted"
  let ?cs = "cos (1::real)" and ?sn = "sin (1::real)"
  have c0: "cameraRef ?A = Some (Vec3 0 0 5)" and d0: "isMouseDown (mouseControls ?A)"
    by (simp_all add: handleMouseDown_def mounted_def)
  let ?B = "specMouseMove \<lparr>clientX = 100, clientY = 100\<rparr> ?A"
  have s1: "?B = ?A\<lparr>cameraRef := Some (Vec3 (- 5 * ?sn) (5 * ?cs * ?sn) (5 * ?cs * ?cs)),
               mouseControls := (mouseControls ?A)\<lparr>lastX := 100, lastY := 100\<rparr>\<rparr>"
    using specMouseMove_step [OF c0 d0, of "\<lparr>clientX = 100, clientY = 100\<rparr>"]
    by (simp add: handleMouseDown_def)
  have c1: "cameraRef ?B = Some (Vec3 (- 5 * ?sn) (5 * ?cs * ?sn) (5 * ?cs * ?cs))"
    and d1: "isMouseDown (mouseControls ?B)"
    and l1: "lastX (mouseControls ?B) = 100" "lastY (mouseControls ?B) = 100"
    using d0 by (simp_all add: s1)
  let ?C = "specMouseMove \<lparr>clientX = 0, clientY = 0\<rparr> ?B"
  have "vx (the (cameraRef ?C)) = (- 5 * ?sn) * ?cs + (5 * ?cs * ?cs) * ?sn"
    using specMouseMove_step [OF c1 d1, of "\<lparr>clientX = 0, clientY = 0\<rparr>"] l1
    by simp
  also have "\<dots> = - (5 * (?sn * ?cs) * (1 - ?cs))" by (simp add: algebra_simps)
  finally have x2: "vx (the (cameraRef ?C)) = - (5 * (?sn * ?cs) * (1 - ?cs))" .
  have hs: "1 / 2 < ?sn" by (rule sin_one_gt_half)
  have hc: "1 / 2 \<le> ?cs" by (rule cos_one_ge_half)
  have hd: "1 / 8 \<le> 1 - ?cs" using cos_one_le by simp
  have "1 / 2 * (1 / 2) < ?sn * ?cs" using hs hc by (intro mult_less_le_imp_less) simp_all
  then have "1 / 4 * (1 / 8) < (?sn * ?cs) * (1 - ?cs)"
    using hd by (intro mult_less_le_imp_less) simp_all
  then have "- (5 * (?sn * ?cs) * (1 - ?cs)) < - (1 / 8)" by simp
  with x2 have "vx (the (cameraRef ?C)) < - (1 / 8)" by simp
  then show ?thesis by simp
qed

text \<open>
  C5. The horizontal update is not a rotation, because \<open>z\<close> is computed from the new
  \<open>x\<close>, and a drag step does not keep the distance from the origin: from the initial
  camera at distance 5, one move of 100 pixels to the right leaves it at a distance below
  4.9.
\<close>

theorem drag_step_changes_distance:
  "cameraRef mounted = Some (Vec3 0 0 5)
   \<and> vlength (Vec3 0 0 5) = 5
   \<and> vlength (the (cameraRef (dragGesture \<lparr>clientX = 0, clientY = 0\<rparr>
        [\<lparr>clientX = 100, clientY = 0\<rparr>] mounted))) < 49 / 10"
proof -
  let ?A = "handleMouseDown \<lparr>clientX = 0, clientY = 0\<rparr> mounted"
  let ?cs = "cos (1::real)" and ?sn = "sin (1::real)"
  have c0: "cameraRef ?A = Some (Vec3 0 0 5)" and d0: "isMouseDown (mouseControls ?A)"
    by (simp_all add: handleMouseDown_def mounted_def)
  let ?B = "handleMouseMove \<lparr>clientX = 100, clientY = 0\<rparr> ?A"
  have c1: "cameraRef ?B = Some (Vec3 (- 5 * ?sn) 0 (- 5 * ?sn * ?sn + 5 * ?cs))"
    using handleMouseMove_step [OF c0 d0, of "\<lparr>clientX = 100, clientY = 0\<rparr>"]
    by (simp add: handleMouseDown_def)
  have sc: "?sn * ?sn = 1 - ?cs * ?cs"
    using sin_cos_squared_add [of "1::real"] by (simp add: power2_eq_square)
  have hs: "1 / 2 < ?sn" by (rule sin_one_gt_half)
  have hc: "1 / 2 \<le> ?cs" by (rule cos_one_ge_half)
  have s2: "1 / 4 < ?sn * ?sn"
  proof -
    have "1 / 2 * (1 / 2) < ?sn * ?sn" using hs by (intro mult_strict_mono) simp_all
    then show ?thesis by simp
  qed
  have c2: "1 / 4 \<le> ?cs * ?cs"
  proof -
    have "1 / 2 * (1 / 2) \<le> ?cs * ?cs" using hc by (intro mult_mono) simp_all
    then show ?thesis by simp
  qed
  have g: "1 / 4 \<le> 2 * ?cs - ?sn * ?sn" using hc c2 by (simp add: sc)
  have "1 / 4 * (1 / 4) < (?sn * ?sn) * (2 * ?cs - ?sn * ?sn)"
    using s2 g by (intro mult_less_le_imp_less) simp_all
  then have m: "1 / 16 < (?sn * ?sn) * (2 * ?cs - ?sn * ?sn)" by simp
  have sq: "(- 5 * ?sn) * (- 5 * ?sn) + 0 * 0 + (- 5 * ?sn * ?sn + 5 * ?cs) * (- 5 * ?sn * ?sn + 5 * ?cs)
        = 25 - 25 * ((?sn * ?sn) * (2 * ?cs - ?sn * ?sn))"
    using sc by (intro sheared_square) simp
  have "vlength (Vec3 (- 5 * ?sn) 0 (- 5 * ?sn * ?sn + 5 * ?cs))
      = sqrt (25 - 25 * ((?sn * ?sn) * (2 * ?cs - ?sn * ?sn)))"
    unfolding vlength_def vec3.sel sq ..
  also have "\<dots> < sqrt ((49 / 10)\<^sup>2)"
    using m by (intro real_sqrt_less_mono) (simp add: power2_eq_square)
  also have "\<dots> = 49 / 10" by simp
  finally have "vlength (Vec3 (- 5 * ?sn) 0 (- 5 * ?sn * ?sn + 5 * ?cs)) < 49 / 10" .
  moreover have "vlength (Vec3 0 0 5) = 5"
  proof -
    have "vlength (Vec3 0 0 5) = sqrt (5\<^sup>2)" by (simp add: vlength_def power2_eq_square)
    then show ?thesis by simp
  qed
  ultimately show ?thesis using c1 by (simp add: dragGesture_def mounted_def)
qed

subsection \<open>Zoom\<close>











end
